theory Spec2Isabelle
  imports
    Complex_Main
    "HOL-Library.List_Lexorder"
    "HOL-Library.Char_ord"
    "HOL-Library.Product_Lexorder"
begin

section \<open>Data model\<close>

text \<open>
  The script \<^verbatim>\<open>main.py\<close> works on pandas data frames. A frame is modelled as the list of
  its rows, in frame order, and a row as a record whose fields are the columns the script
  reads or writes. A vectorised column operation is a \<open>map\<close> over the rows.

  \<^item> \<^verbatim>\<open>tmc_code\<close> is a string.
  \<^item> \<^verbatim>\<open>DATETIME\<close> is a timezone-naive timestamp, modelled as the number of seconds since
    1970-01-01 00:00:00 (a Thursday); the accessors \<^verbatim>\<open>.dt.hour\<close> and \<^verbatim>\<open>.dt.dayofweek\<close> are
    computed from it.
  \<^item> A float column that may hold a missing value (\<^verbatim>\<open>NaN\<close>) is a \<open>real option\<close>, with
    \<open>None\<close> for \<^verbatim>\<open>NaN\<close>. Floating-point numbers are idealised as reals: rounding and the
    \<^verbatim>\<open>downcast\<close> of \<^verbatim>\<open>pd.to_numeric\<close> (a change of storage width) are not modelled.
\<close>

record obs =
  tmc_code :: string
  DATETIME :: int
  MPH :: "real option"
  TT_SEC :: "real option"

record tod_row = obs +
  HOD :: int
  DOW :: int
  TOD :: string

text \<open>\<^verbatim>\<open>Series.dt.hour\<close>: the hour component, 0 to 23.\<close>

definition dt_hour :: "int \<Rightarrow> int" where
  "dt_hour t = (t div 3600) mod 24"

text \<open>\<^verbatim>\<open>Series.dt.dayofweek\<close>: Monday is 0 and Sunday is 6.\<close>

definition dt_dayofweek :: "int \<Rightarrow> int" where
  "dt_dayofweek t = (t div 86400 + 3) mod 7"

text \<open>\<^verbatim>\<open>Series.replace(a, b)\<close> on one value.\<close>

definition replace :: "int \<Rightarrow> int \<Rightarrow> int \<Rightarrow> int" where
  "replace a b x = (if x = a then b else x)"

text \<open>\<^verbatim>\<open>Series.between(lo, hi, inclusive='neither')\<close> and \<^verbatim>\<open>Series.between(lo, hi)\<close>
  (inclusive on both sides by default), and \<^verbatim>\<open>Series.isin\<close>, on one value.\<close>

definition between_neither :: "int \<Rightarrow> int \<Rightarrow> int \<Rightarrow> bool" where
  "between_neither lo hi x \<longleftrightarrow> lo < x \<and> x < hi"

definition between :: "int \<Rightarrow> int \<Rightarrow> int \<Rightarrow> bool" where
  "between lo hi x \<longleftrightarrow> lo \<le> x \<and> x \<le> hi"

definition isin :: "int list \<Rightarrow> int \<Rightarrow> bool" where
  "isin vs x \<longleftrightarrow> x \<in> set vs"

section \<open>Time Bucketer: \<^verbatim>\<open>add_hod_dow_tod_to_dataset\<close>\<close>

text \<open>
  The column \<^verbatim>\<open>TOD\<close> is first set to \<^verbatim>\<open>'EV'\<close> and then overwritten by four masked assignments,
  in the order of the source; \<open>assign_tod\<close> runs them for one row.
\<close>

definition assign_tod :: "int \<Rightarrow> int \<Rightarrow> string" where
  "assign_tod hod dow =
    (let tod = ''EV'';
         tod = (if between_neither 5 10 hod \<and> between 2 6 dow then ''AM'' else tod);
         tod = (if between_neither 9 16 hod \<and> between 2 6 dow then ''MD'' else tod);
         tod = (if between_neither 15 20 hod \<and> between 2 6 dow then ''PM'' else tod);
         tod = (if between_neither 5 20 hod \<and> isin [1, 7] dow then ''WE'' else tod)
     in tod)"

definition add_hod_dow_tod_row :: "obs \<Rightarrow> tod_row" where
  "add_hod_dow_tod_row r =
    (let hod = dt_hour (DATETIME r);
         dow = replace 8 1 (dt_dayofweek (DATETIME r) + 2)
     in \<lparr>tmc_code = tmc_code r, DATETIME = DATETIME r, MPH = MPH r, TT_SEC = TT_SEC r,
         HOD = hod, DOW = dow, TOD = assign_tod hod dow\<rparr>)"

definition add_hod_dow_tod_to_dataset :: "obs list \<Rightarrow> tod_row list" where
  "add_hod_dow_tod_to_dataset data = map add_hod_dow_tod_row data"

text \<open>The rule table of the specification, as one nested conditional on (hour, day).\<close>

definition tod_rule :: "int \<Rightarrow> int \<Rightarrow> string" where
  "tod_rule h d =
    (if 5 < h \<and> h < 20 \<and> (d = 1 \<or> d = 7) then ''WE''
     else if 5 < h \<and> h < 10 \<and> 2 \<le> d \<and> d \<le> 6 then ''AM''
     else if 9 < h \<and> h < 16 \<and> 2 \<le> d \<and> d \<le> 6 then ''MD''
     else if 15 < h \<and> h < 20 \<and> 2 \<le> d \<and> d \<le> 6 then ''PM''
     else ''EV'')"

section \<open>Reliability Calculator: \<^verbatim>\<open>add_lottr_to_dataset\<close>\<close>

datatype error = Exception string | IndexError

text \<open>
  \<^verbatim>\<open>np.percentile(x, q, method='closest_observation')\<close>. NumPy divides \<open>q\<close> by 100, computes
  the virtual index \<open>n * quantile - 1 - 0.5\<close> and takes its floor (\<open>previous\<close>) or the
  following integer (\<open>next\<close>): \<open>previous\<close> only when the virtual index is an integer and
  its floor has one parity, \<open>next\<close> otherwise; a negative result is clipped to 0. The value
  is then taken from the sorted data at that index, which raises \<^verbatim>\<open>IndexError\<close> out of
  range.

  The virtual index is modelled in the reals. When it is not an integer this is what
  NumPy computes. When it is an integer (an exact tie), what NumPy does depends on two
  things the script does not fix: the parity that the NumPy release tests, and the
  rounding of the product \<open>n * quantile\<close> in double precision, which can fall just below
  or above the tie and then gives \<open>previous\<close> or \<open>next\<close> of the exact index. So the
  decision at an exact tie is the parameter \<open>tie\<close>, a function of the sample size and
  the quantile, and nothing is assumed about it; \<open>parity_tie p\<close> is the rule of a
  release that tests parity \<open>p\<close>, in exact arithmetic.
\<close>

type_synonym tie_rule = "nat \<Rightarrow> real \<Rightarrow> bool"

definition closest_observation :: "tie_rule \<Rightarrow> nat \<Rightarrow> real \<Rightarrow> int" where
  "closest_observation tie n quantile =
    (let index = real n * quantile - 1 - 0.5;
         previous = \<lfloor>index\<rfloor>;
         next = previous + 1;
         gamma = index - of_int previous;
         res = (if gamma = 0 \<and> tie n quantile then previous else next)
     in if res < 0 then 0 else res)"

definition parity_tie :: "int \<Rightarrow> tie_rule" where
  "parity_tie p n quantile \<longleftrightarrow> \<lfloor>real n * quantile - 1 - 0.5\<rfloor> mod 2 = p"

definition percentile :: "tie_rule \<Rightarrow> real list \<Rightarrow> int \<Rightarrow> error + real" where
  "percentile tie x q =
    (let arr = sort x;
         i = closest_observation tie (length arr) (of_int q / 100)
     in if 0 \<le> i \<and> i < int (length arr) then Inr (arr ! nat i) else Inl IndexError)"

text \<open>The grouping key \<^verbatim>\<open>['tmc_code','TOD']\<close> and the join key \<^verbatim>\<open>['tmc_code','DATETIME']\<close>.\<close>

definition group_key :: "'a tod_row_scheme \<Rightarrow> string \<times> string" where
  "group_key r = (tmc_code r, TOD r)"

definition row_key :: "'a obs_scheme \<Rightarrow> string \<times> int" where
  "row_key r = (tmc_code r, DATETIME r)"

text \<open>\<^verbatim>\<open>data.dropna(subset=['TT_SEC'])\<close>.\<close>

definition dropna_TT_SEC :: "tod_row list \<Rightarrow> tod_row list" where
  "dropna_TT_SEC data = filter (\<lambda>r. TT_SEC r \<noteq> None) data"

text \<open>
  \<^verbatim>\<open>groupby(['tmc_code','TOD']).agg(...).reset_index()\<close>: one row per group key, in sorted
  key order, holding the two percentiles of the group's \<^verbatim>\<open>TT_SEC\<close> values. An exception of
  \<^verbatim>\<open>np.percentile\<close> propagates. (With categorical keys pandas may add rows for key
  combinations that have no observation, holding \<^verbatim>\<open>NaN\<close> twice; joined to the left they
  give what a missing row gives, and they are left out.)
\<close>

type_synonym perc_row = "(string \<times> string) \<times> real \<times> real"

fun agg :: "tie_rule \<Rightarrow> tod_row list \<Rightarrow> int \<Rightarrow> int \<Rightarrow> (string \<times> string) list \<Rightarrow> error + perc_row list" where
  "agg tie data q1 q2 [] = Inr []"
| "agg tie data q1 q2 (k # ks) =
    (let x = List.map_filter TT_SEC (filter (\<lambda>r. group_key r = k) data) in
     case percentile tie x q1 of
       Inl e \<Rightarrow> Inl e
     | Inr v1 \<Rightarrow>
        (case percentile tie x q2 of
           Inl e \<Rightarrow> Inl e
         | Inr v2 \<Rightarrow>
            (case agg tie data q1 q2 ks of
               Inl e \<Rightarrow> Inl e
             | Inr rest \<Rightarrow> Inr ((k, v1, v2) # rest))))"

definition groupby_agg :: "tie_rule \<Rightarrow> tod_row list \<Rightarrow> int \<Rightarrow> int \<Rightarrow> error + perc_row list" where
  "groupby_agg tie data q1 q2 = agg tie data q1 q2 (sort (remdups (map group_key data)))"

text \<open>
  \<^verbatim>\<open>pd.merge(left, right, how='left')\<close> on a key: the rows of \<open>left\<close> in their order, each
  paired with every row of \<open>right\<close> that has its key, in the order of \<open>right\<close>, or with
  nothing when \<open>right\<close> has no such row.
\<close>

definition merge_left :: "('a \<Rightarrow> 'k) \<Rightarrow> ('b \<Rightarrow> 'k) \<Rightarrow> 'a list \<Rightarrow> 'b list \<Rightarrow> ('a \<times> 'b option) list" where
  "merge_left kl kr left right =
    concat (map (\<lambda>l. case filter (\<lambda>r. kr r = kl l) right of
                        [] \<Rightarrow> [(l, None)]
                      | ms \<Rightarrow> map (\<lambda>r. (l, Some r)) ms) left)"

text \<open>
  A float result that may be non-finite: the quotient of two float columns is \<^verbatim>\<open>NaN\<close> when
  an operand is \<^verbatim>\<open>NaN\<close> or both are zero, and an infinity when only the divisor is zero.
  For a divisor that is not zero \<open>truediv\<close> gives the quotient in the reals. The script
  stores a floating-point number there (a double-precision quotient, narrowed by
  \<^verbatim>\<open>pd.to_numeric(..., downcast='float')\<close>), which is that real only up to rounding and
  is an infinity when the quotient is too large; nothing below is stated about the digits
  of \<^verbatim>\<open>LOTTR\<close>.
\<close>

datatype fval = NaN | Fin real | PosInf | NegInf

definition truediv :: "real option \<Rightarrow> real option \<Rightarrow> fval" where
  "truediv a b =
    (case (a, b) of
       (Some x, Some y) \<Rightarrow>
         (if y \<noteq> 0 then Fin (x / y)
          else if x = 0 then NaN
          else if 0 < x then PosInf else NegInf)
     | _ \<Rightarrow> NaN)"

record lottr_row = tod_row +
  TTQ1P :: "real option"
  TTQ2P :: "real option"
  LOTTR :: fval

definition add_lottr_row :: "tod_row \<times> perc_row option \<Rightarrow> lottr_row" where
  "add_lottr_row rp =
    (let r = fst rp;
         ttq1p = map_option (\<lambda>p. fst (snd p)) (snd rp);
         ttq2p = map_option (\<lambda>p. snd (snd p)) (snd rp)
     in \<lparr>tmc_code = tmc_code r, DATETIME = DATETIME r, MPH = MPH r, TT_SEC = TT_SEC r,
         HOD = HOD r, DOW = DOW r, TOD = TOD r,
         TTQ1P = ttq1p, TTQ2P = ttq2p, LOTTR = truediv ttq2p ttq1p\<rparr>)"

definition add_lottr_to_dataset :: "tie_rule \<Rightarrow> tod_row list \<Rightarrow> int \<Rightarrow> int \<Rightarrow> error + lottr_row list" where
  "add_lottr_to_dataset tie data q1 q2 =
    (if (q1 < 0 \<or> q1 > 100) \<or> (q2 < 0 \<or> q2 > 100)
     then Inl (Exception ''q1 and q2 must be between 0 and 100.'')
     else
       (case groupby_agg tie (dropna_TT_SEC data) q1 q2 of
          Inl e \<Rightarrow> Inl e
        | Inr data_perc \<Rightarrow> Inr (map add_lottr_row (merge_left group_key fst data data_perc))))"

text \<open>
  For the statements below: the travel times of a group that are not missing, and the
  observation that \<open>percentile\<close> takes from a non-empty sample.
\<close>

definition observed :: "tod_row list \<Rightarrow> string \<times> string \<Rightarrow> real list" where
  "observed data k = List.map_filter TT_SEC (filter (\<lambda>r. group_key r = k) data)"

definition pick :: "tie_rule \<Rightarrow> real list \<Rightarrow> int \<Rightarrow> real" where
  "pick tie x q = sort x ! nat (closest_observation tie (length x) (of_int q / 100))"

text \<open>
  The rank rule in the words of the specification: the rank closest to
  \<open>q * (n - 1) / 100\<close>, with standard rounding.
\<close>

definition spec_rank :: "nat \<Rightarrow> int \<Rightarrow> int" where
  "spec_rank n q = round (of_int q * (real n - 1) / 100)"

section \<open>Merger and imputer: the interstate part of the script\<close>

text \<open>
  The merged frame. The truck columns \<^verbatim>\<open>TRK_tmc_code\<close>, \<^verbatim>\<open>TRK_DATETIME\<close>, \<^verbatim>\<open>TRK_HOD\<close>,
  \<^verbatim>\<open>TRK_DOW\<close> and \<^verbatim>\<open>TRK_TOD\<close> are dropped at the end and never read before, so the rows do
  not carry them. \<^verbatim>\<open>FLAG\<close> is set to 1 under the mask, \<^verbatim>\<open>NaN\<close> elsewhere, and then filled
  with 0.
\<close>

record merged_row = lottr_row +
  TRK_MPH :: "real option"
  TRK_TT_SEC :: "real option"
  TRK_TTQ1P :: "real option"
  TRK_TTQ2P :: "real option"
  TRK_LOTTR :: fval
  FLAG :: nat

definition fillna :: "'a \<Rightarrow> 'a option \<Rightarrow> 'a" where
  "fillna d x = (case x of None \<Rightarrow> d | Some v \<Rightarrow> v)"

definition join_row :: "lottr_row \<times> lottr_row option \<Rightarrow> merged_row" where
  "join_row ps =
    (let p = fst ps;
         trk_mph = Option.bind (snd ps) MPH;
         trk_tt_sec = Option.bind (snd ps) TT_SEC;
         flag = (if trk_tt_sec = None then Some 1 else None);
         flag = fillna 0 flag
     in \<lparr>tmc_code = tmc_code p, DATETIME = DATETIME p, MPH = MPH p, TT_SEC = TT_SEC p,
         HOD = HOD p, DOW = DOW p, TOD = TOD p,
         TTQ1P = TTQ1P p, TTQ2P = TTQ2P p, LOTTR = LOTTR p,
         TRK_MPH = trk_mph, TRK_TT_SEC = trk_tt_sec,
         TRK_TTQ1P = Option.bind (snd ps) TTQ1P, TRK_TTQ2P = Option.bind (snd ps) TTQ2P,
         TRK_LOTTR = (case snd ps of None \<Rightarrow> NaN | Some t \<Rightarrow> LOTTR t),
         FLAG = flag\<rparr>)"

text \<open>The masked assignment of \<^verbatim>\<open>['MPH','TT_SEC']\<close> to \<^verbatim>\<open>['TRK_MPH','TRK_TT_SEC']\<close>.\<close>

definition impute_row :: "merged_row \<Rightarrow> merged_row" where
  "impute_row r =
    (if TRK_TT_SEC r = None then r\<lparr>TRK_MPH := MPH r, TRK_TT_SEC := TT_SEC r\<rparr> else r)"

definition merge_flag :: "lottr_row list \<Rightarrow> lottr_row list \<Rightarrow> merged_row list" where
  "merge_flag data_int data_int_trk = map join_row (merge_left row_key row_key data_int data_int_trk)"

definition merge_impute :: "lottr_row list \<Rightarrow> lottr_row list \<Rightarrow> merged_row list" where
  "merge_impute data_int data_int_trk = map impute_row (merge_flag data_int data_int_trk)"

text \<open>
  The truck frame is first merged onto the keys of the all-vehicle frame
  (\<^verbatim>\<open>pd.merge(data_int[['tmc_code','DATETIME']], data_int_trk, how='left')\<close>).
\<close>

definition restrict_trk :: "lottr_row list \<Rightarrow> obs list \<Rightarrow> obs list" where
  "restrict_trk data_int trk =
    map (\<lambda>km. \<lparr>tmc_code = fst (fst km), DATETIME = snd (fst km),
               MPH = Option.bind (snd km) MPH, TT_SEC = Option.bind (snd km) TT_SEC\<rparr>)
        (merge_left id row_key (map row_key data_int) trk)"

definition truck_reliability :: "tie_rule \<Rightarrow> lottr_row list \<Rightarrow> obs list \<Rightarrow> error + lottr_row list" where
  "truck_reliability tie data_int trk =
    add_lottr_to_dataset tie (add_hod_dow_tod_to_dataset (restrict_trk data_int trk)) 50 95"

text \<open>
  Steps 1 to 3 of the script, from the two frames that \<^verbatim>\<open>csv_preprocessing_pipeline\<close> reads:
  the result is the frame written to the output file.
\<close>

definition interstate :: "tie_rule \<Rightarrow> obs list \<Rightarrow> obs list \<Rightarrow> error + merged_row list" where
  "interstate tie ohint ohintrk =
    (case add_lottr_to_dataset tie (add_hod_dow_tod_to_dataset ohint) 50 80 of
       Inl e \<Rightarrow> Inl e
     | Inr data_int \<Rightarrow>
        (case truck_reliability tie data_int ohintrk of
           Inl e \<Rightarrow> Inl e
         | Inr data_int_trk \<Rightarrow> Inr (merge_impute data_int data_int_trk)))"

section \<open>Example frames\<close>

text \<open>
  Small frames on which the properties below are evaluated. The timestamp 1672639200 is
  Monday 2023-01-02 06:00, and 1672651800 is 09:30 of the same day.
\<close>

definition ex_AM :: "tod_row list" where
  "ex_AM = map (\<lambda>(t, v). \<lparr>tmc_code = ''X'', DATETIME = t, MPH = Some 55, TT_SEC = v,
                        HOD = 6, DOW = 2, TOD = ''AM''\<rparr>)
    [(1672639200, Some 10), (1672639500, Some 10), (1672639800, Some 20), (1672640100, None),
     (1672640400, Some 10), (1672640700, Some 10)]"

definition ex_zero :: "tod_row list" where
  "ex_zero =
    [\<lparr>tmc_code = ''X'', DATETIME = 1672639200, MPH = None, TT_SEC = Some 0,
      HOD = 6, DOW = 2, TOD = ''AM''\<rparr>,
     \<lparr>tmc_code = ''X'', DATETIME = 1672639500, MPH = Some 55, TT_SEC = Some 120,
      HOD = 6, DOW = 2, TOD = ''AM''\<rparr>,
     \<lparr>tmc_code = ''Y'', DATETIME = 1672639200, MPH = None, TT_SEC = None,
      HOD = 6, DOW = 2, TOD = ''AM''\<rparr>,
     \<lparr>tmc_code = ''X'', DATETIME = 1672660800, MPH = Some 60, TT_SEC = Some 110,
      HOD = 12, DOW = 2, TOD = ''MD''\<rparr>,
     \<lparr>tmc_code = ''X'', DATETIME = 1672661100, MPH = Some 30, TT_SEC = Some 220,
      HOD = 12, DOW = 2, TOD = ''MD''\<rparr>]"

definition ex_int :: "obs list" where
  "ex_int = [\<lparr>tmc_code = ''X'', DATETIME = 1672651800, MPH = Some 55, TT_SEC = Some 120\<rparr>]"

definition ex_trk :: "obs list" where
  "ex_trk = [\<lparr>tmc_code = ''X'', DATETIME = 1672651800, MPH = Some 50, TT_SEC = Some 130\<rparr>,
             \<lparr>tmc_code = ''Z'', DATETIME = 1672651800, MPH = Some 1, TT_SEC = Some 9000\<rparr>]"

definition ex_P :: "lottr_row list" where
  "ex_P = [\<lparr>tmc_code = ''X'', DATETIME = 1672651800, MPH = Some 55, TT_SEC = Some 120,
            HOD = 9, DOW = 2, TOD = ''AM'', TTQ1P = Some 120, TTQ2P = Some 120, LOTTR = Fin 1\<rparr>]"

definition ex_S :: "lottr_row list" where
  "ex_S = [\<lparr>tmc_code = ''X'', DATETIME = 1672651800, MPH = Some 50, TT_SEC = Some 130,
            HOD = 9, DOW = 2, TOD = ''AM'', TTQ1P = Some 130, TTQ2P = Some 130, LOTTR = Fin 1\<rparr>]"

section \<open>Properties of the Time Bucketer\<close>

lemma assign_tod_rule: "assign_tod h d = tod_rule h d"
  by (simp add: assign_tod_def tod_rule_def between_neither_def between_def isin_def)

lemma dt_hour_range: "0 \<le> dt_hour t \<and> dt_hour t < 24"
  by (simp add: dt_hour_def)

lemma dow_range: "1 \<le> replace 8 1 (dt_dayofweek t + 2) \<and> replace 8 1 (dt_dayofweek t + 2) \<le> 7"
proof -
  have "0 \<le> dt_dayofweek t" "dt_dayofweek t < 7"
    by (simp_all add: dt_dayofweek_def)
  then show ?thesis
    by (simp add: replace_def)
qed

text \<open>
  Claim C1. Every row gets one \<^verbatim>\<open>TOD\<close> value among AM, MD, PM, WE and EV, and the four
  masked assignments over the default EV compute the rule table on (hour, day): WE for a
  weekend day and an hour from 6 to 19, AM, MD and PM for a weekday and an hour from 6 to
  9, 10 to 15 and 16 to 19, and EV everywhere else, weekday hours 5 and 20 included.
  Weekday hour 9 is AM, hour 10 is MD and hour 16 is PM. The output has the rows of the
  input, with the hour and the day of the timestamp.
\<close>

theorem time_bucketer_rules:
  "map TOD (add_hod_dow_tod_to_dataset data) =
     map (\<lambda>r. tod_rule (dt_hour (DATETIME r)) (replace 8 1 (dt_dayofweek (DATETIME r) + 2))) data
   \<and> map obs.truncate (add_hod_dow_tod_to_dataset data) = map obs.truncate data
   \<and> set (map TOD (add_hod_dow_tod_to_dataset data)) \<subseteq> {''AM'', ''MD'', ''PM'', ''WE'', ''EV''}
   \<and> assign_tod h d = tod_rule h d
   \<and> assign_tod h d
       = (if 6 \<le> h \<and> h \<le> 19 \<and> (d = 1 \<or> d = 7) then ''WE''
          else if 6 \<le> h \<and> h \<le> 9 \<and> d \<in> {2..6} then ''AM''
          else if 10 \<le> h \<and> h \<le> 15 \<and> d \<in> {2..6} then ''MD''
          else if 16 \<le> h \<and> h \<le> 19 \<and> d \<in> {2..6} then ''PM''
          else ''EV'')
   \<and> map (assign_tod 5) [2, 3, 4, 5, 6] = replicate 5 ''EV''
   \<and> map (assign_tod 20) [2, 3, 4, 5, 6] = replicate 5 ''EV''
   \<and> map (assign_tod 9) [2, 3, 4, 5, 6] = replicate 5 ''AM''
   \<and> map (assign_tod 10) [2, 3, 4, 5, 6] = replicate 5 ''MD''
   \<and> map (assign_tod 16) [2, 3, 4, 5, 6] = replicate 5 ''PM''"
proof -
  have row: "TOD (add_hod_dow_tod_row r)
      = tod_rule (dt_hour (DATETIME r)) (replace 8 1 (dt_dayofweek (DATETIME r) + 2))" for r
    by (simp add: add_hod_dow_tod_row_def Let_def assign_tod_rule)
  have a: "map TOD (add_hod_dow_tod_to_dataset data) =
     map (\<lambda>r. tod_rule (dt_hour (DATETIME r)) (replace 8 1 (dt_dayofweek (DATETIME r) + 2))) data"
    by (simp add: add_hod_dow_tod_to_dataset_def row)
  have b: "map obs.truncate (add_hod_dow_tod_to_dataset data) = map obs.truncate data"
    by (simp add: add_hod_dow_tod_to_dataset_def add_hod_dow_tod_row_def Let_def obs.truncate_def)
  have "tod_rule x y \<in> {''AM'', ''MD'', ''PM'', ''WE'', ''EV''}" for x y
    by (simp add: tod_rule_def)
  then have c: "set (map TOD (add_hod_dow_tod_to_dataset data)) \<subseteq> {''AM'', ''MD'', ''PM'', ''WE'', ''EV''}"
    unfolding a by auto
  have e: "assign_tod h d
       = (if 6 \<le> h \<and> h \<le> 19 \<and> (d = 1 \<or> d = 7) then ''WE''
          else if 6 \<le> h \<and> h \<le> 9 \<and> d \<in> {2..6} then ''AM''
          else if 10 \<le> h \<and> h \<le> 15 \<and> d \<in> {2..6} then ''MD''
          else if 16 \<le> h \<and> h \<le> 19 \<and> d \<in> {2..6} then ''PM''
          else ''EV'')"
    by (simp add: assign_tod_def between_neither_def between_def isin_def)
  have f: "map (assign_tod 5) [2, 3, 4, 5, 6] = replicate 5 ''EV''"
    "map (assign_tod 20) [2, 3, 4, 5, 6] = replicate 5 ''EV''"
    "map (assign_tod 9) [2, 3, 4, 5, 6] = replicate 5 ''AM''"
    "map (assign_tod 10) [2, 3, 4, 5, 6] = replicate 5 ''MD''"
    "map (assign_tod 16) [2, 3, 4, 5, 6] = replicate 5 ''PM''"
    by (simp_all add: assign_tod_rule tod_rule_def numeral_eq_Suc)
  from a b c e f show ?thesis
    by (simp only: assign_tod_rule simp_thms)
qed

theorem time_bucketer_rules_witness:
  "map TOD (add_hod_dow_tod_to_dataset
      [\<lparr>tmc_code = ''X'', DATETIME = 1672651800, MPH = Some 55, TT_SEC = Some 120\<rparr>,
       \<lparr>tmc_code = ''X'', DATETIME = 1672570800, MPH = None, TT_SEC = None\<rparr>])
     = [''AM'', ''WE'']"
  using time_bucketer_rules
    [of "[\<lparr>tmc_code = ''X'', DATETIME = 1672651800, MPH = Some 55, TT_SEC = Some 120\<rparr>,
          \<lparr>tmc_code = ''X'', DATETIME = 1672570800, MPH = None, TT_SEC = None\<rparr>]" 9 2]
  by (simp add: tod_rule_def dt_hour_def dt_dayofweek_def replace_def)

section \<open>Percentiles and left joins\<close>

lemma closest_observation_range:
  assumes "0 < n" "0 \<le> q" "q \<le> 100"
  shows "0 \<le> closest_observation tie n (of_int q / 100) \<and> closest_observation tie n (of_int q / 100) < int n"
proof -
  define index :: real where "index = real n * (of_int q / 100) - 1 - 0.5"
  have "real_of_int q / 100 \<le> 1" using assms by simp
  then have "real n * (of_int q / 100) \<le> real n * 1"
    by (intro mult_left_mono) simp_all
  then have "index \<le> real n - 3/2" by (simp add: index_def)
  then have "index < of_int (int n - 1)" by simp
  then have fl: "\<lfloor>index\<rfloor> < int n - 1" by (simp only: floor_less_iff)
  show ?thesis
    using fl assms(1) unfolding closest_observation_def Let_def index_def[symmetric]
    by auto
qed

lemma percentile_ok:
  assumes "x \<noteq> []" "0 \<le> q" "q \<le> 100"
  shows "percentile tie x q = Inr (sort x ! nat (closest_observation tie (length x) (of_int q / 100)))"
    and "sort x ! nat (closest_observation tie (length x) (of_int q / 100)) \<in> set x"
proof -
  have n: "0 < length x" using assms(1) by simp
  note r = closest_observation_range[OF n assms(2,3), of tie]
  show "percentile tie x q = Inr (sort x ! nat (closest_observation tie (length x) (of_int q / 100)))"
    using r by (simp add: percentile_def Let_def)
  have "nat (closest_observation tie (length x) (of_int q / 100)) < length (sort x)"
    using r by (simp add: nat_less_iff)
  then have "sort x ! nat (closest_observation tie (length x) (of_int q / 100)) \<in> set (sort x)"
    by (rule nth_mem)
  then show "sort x ! nat (closest_observation tie (length x) (of_int q / 100)) \<in> set x" by simp
qed

lemma percentile_empty: "percentile tie [] q = Inl IndexError"
  by (simp add: percentile_def Let_def)

lemma merge_left_distinct:
  assumes "distinct (map kr right)"
  shows "merge_left kl kr left right = map (\<lambda>l. (l, find (\<lambda>r. kr r = kl l) right)) left"
proof -
  have one: "(case filter (\<lambda>r. kr r = k) right of [] \<Rightarrow> [(l, None)] | ms \<Rightarrow> map (\<lambda>r. (l, Some r)) ms)
      = [(l, find (\<lambda>r. kr r = k) right)]" for l k
    using assms
  proof (induction right)
    case Nil
    then show ?case by simp
  next
    case (Cons a right)
    show ?case
    proof (cases "kr a = k")
      case True
      from Cons.prems have "kr a \<notin> kr ` set right" by simp
      with True have "\<forall>x\<in>set right. kr x \<noteq> k" by (metis image_eqI)
      then have "filter (\<lambda>r. kr r = k) right = []"
        by (simp add: filter_empty_conv)
      with True show ?thesis by simp
    next
      case False
      with Cons show ?thesis by simp
    qed
  qed
  show ?thesis
    unfolding merge_left_def by (induction left) (simp_all add: one)
qed

lemma merge_left_fst:
  "map fst (merge_left kl kr left right)
    = concat (map (\<lambda>l. replicate (max 1 (length (filter (\<lambda>r. kr r = kl l) right))) l) left)"
proof -
  have one: "map fst (case ms of [] \<Rightarrow> [(l, None)] | m # ms' \<Rightarrow> map (\<lambda>r. (l, Some r)) (m # ms'))
      = replicate (max 1 (length ms)) l" for l ms
    by (cases ms) (simp_all add: comp_def map_replicate_const max_def)
  show ?thesis
    unfolding merge_left_def map_concat map_map comp_def by (simp only: one)
qed

lemma merge_left_length_ge: "length left \<le> length (merge_left kl kr left right)"
proof -
  have "length (merge_left kl kr left right) = length (map fst (merge_left kl kr left right))" by simp
  also have "\<dots> = (\<Sum>l\<leftarrow>left. max 1 (length (filter (\<lambda>r. kr r = kl l) right)))"
    unfolding merge_left_fst by (simp add: length_concat comp_def)
  also have "\<dots> \<ge> (\<Sum>l\<leftarrow>left. 1)"
    by (intro sum_list_mono) simp
  finally show ?thesis by (simp add: sum_list_triv)
qed

lemma merge_left_filter_right:
  "merge_left kl kr left (filter (\<lambda>r. kr r \<in> kl ` set left) right) = merge_left kl kr left right"
proof -
  have "filter (\<lambda>r. kr r = kl l) (filter (\<lambda>r. kr r \<in> kl ` set left) right) = filter (\<lambda>r. kr r = kl l) right"
    if "l \<in> set left" for l
    using that by (auto simp: filter_filter intro!: filter_cong)
  then show ?thesis
    unfolding merge_left_def by (auto intro!: arg_cong[where f=concat] map_cong)
qed

lemma add_lottr_row_fields [simp]:
  "tmc_code (add_lottr_row (r, p)) = tmc_code r"
  "DATETIME (add_lottr_row (r, p)) = DATETIME r"
  "MPH (add_lottr_row (r, p)) = MPH r"
  "TT_SEC (add_lottr_row (r, p)) = TT_SEC r"
  "HOD (add_lottr_row (r, p)) = HOD r"
  "DOW (add_lottr_row (r, p)) = DOW r"
  "TOD (add_lottr_row (r, p)) = TOD r"
  "TTQ1P (add_lottr_row (r, p)) = map_option (\<lambda>p. fst (snd p)) p"
  "TTQ2P (add_lottr_row (r, p)) = map_option (\<lambda>p. snd (snd p)) p"
  "LOTTR (add_lottr_row (r, p))
     = truediv (map_option (\<lambda>p. snd (snd p)) p) (map_option (\<lambda>p. fst (snd p)) p)"
  by (simp_all add: add_lottr_row_def Let_def)

lemma group_key_add_lottr_row [simp]: "group_key (add_lottr_row (r, p)) = group_key r"
  by (simp add: group_key_def)

lemma percentile_pick:
  assumes "x \<noteq> []" "0 \<le> q" "q \<le> 100"
  shows "percentile tie x q = Inr (pick tie x q)" and "pick tie x q \<in> set x"
  using percentile_ok[OF assms, of tie] by (simp_all add: pick_def)

lemma observed_dropna: "observed (dropna_TT_SEC data) k = observed data k"
  unfolding observed_def dropna_TT_SEC_def
  by (induction data) (auto simp: List.map_filter_simps split: option.splits)

lemma set_observed:
  "set (observed data k) = {v. \<exists>r\<in>set data. group_key r = k \<and> TT_SEC r = Some v}"
  unfolding observed_def
  by (induction data) (auto simp: List.map_filter_simps split: option.splits)

lemma observed_empty_iff:
  "observed data k = [] \<longleftrightarrow> k \<notin> group_key ` set (dropna_TT_SEC data)"
proof -
  have "observed data k = [] \<longleftrightarrow> set (observed data k) = {}" by simp
  also have "\<dots> \<longleftrightarrow> k \<notin> group_key ` set (dropna_TT_SEC data)"
    unfolding set_observed dropna_TT_SEC_def by auto
  finally show ?thesis .
qed

lemma agg_ok:
  assumes q: "0 \<le> q1" "q1 \<le> 100" "0 \<le> q2" "q2 \<le> 100"
    and ks: "\<forall>k\<in>set ks. observed data k \<noteq> []"
  shows "agg tie data q1 q2 ks
     = Inr (map (\<lambda>k. (k, pick tie (observed data k) q1, pick tie (observed data k) q2)) ks)"
  using ks
proof (induction ks)
  case Nil
  show ?case by simp
next
  case (Cons k ks)
  from Cons.prems have ne: "observed data k \<noteq> []" by simp
  from Cons have ih: "agg tie data q1 q2 ks
     = Inr (map (\<lambda>k. (k, pick tie (observed data k) q1, pick tie (observed data k) q2)) ks)"
    by simp
  show ?case
    using percentile_pick(1)[OF ne q(1,2), of tie] percentile_pick(1)[OF ne q(3,4), of tie]
    by (simp add: ih Let_def observed_def[symmetric])
qed

lemma groupby_agg_ok:
  assumes q: "0 \<le> q1" "q1 \<le> 100" "0 \<le> q2" "q2 \<le> 100"
  shows "groupby_agg tie (dropna_TT_SEC data) q1 q2
     = Inr (map (\<lambda>k. (k, pick tie (observed data k) q1, pick tie (observed data k) q2))
             (sort (remdups (map group_key (dropna_TT_SEC data)))))"
proof -
  have "\<forall>k\<in>set (sort (remdups (map group_key (dropna_TT_SEC data)))).
          observed (dropna_TT_SEC data) k \<noteq> []"
    by (simp add: observed_dropna observed_empty_iff)
  from agg_ok[OF q this, of tie] show ?thesis
    by (simp add: groupby_agg_def observed_dropna)
qed

lemma find_map_key:
  "find (\<lambda>p. fst p = k) (map (\<lambda>k. (k, f k)) ks) = (if k \<in> set ks then Some (k, f k) else None)"
  by (induction ks) auto

text \<open>What the Reliability Calculator returns for percentiles in range.\<close>

lemma add_lottr_to_dataset_ok:
  assumes q: "0 \<le> q1" "q1 \<le> 100" "0 \<le> q2" "q2 \<le> 100"
  shows "add_lottr_to_dataset tie data q1 q2
     = Inr (map (\<lambda>r. add_lottr_row (r,
              if observed data (group_key r) = [] then None
              else Some (group_key r, pick tie (observed data (group_key r)) q1,
                                      pick tie (observed data (group_key r)) q2))) data)"
proof -
  let ?keys = "sort (remdups (map group_key (dropna_TT_SEC data)))"
  let ?f = "\<lambda>k. (pick tie (observed data k) q1, pick tie (observed data k) q2)"
  let ?perc = "map (\<lambda>k. (k, ?f k)) ?keys"
  have d: "distinct (map fst ?perc)"
    by (simp add: comp_def)
  have mem: "k \<in> set ?keys \<longleftrightarrow> observed data k \<noteq> []" for k
    by (simp add: observed_empty_iff)
  have "merge_left group_key fst data ?perc
      = map (\<lambda>r. (r, find (\<lambda>p. fst p = group_key r) ?perc)) data"
    by (rule merge_left_distinct[OF d])
  also have "\<dots> = map (\<lambda>r. (r, if observed data (group_key r) = [] then None
              else Some (group_key r, ?f (group_key r)))) data"
    unfolding find_map_key mem by (intro map_cong refl) simp
  finally have m: "merge_left group_key fst data ?perc
      = map (\<lambda>r. (r, if observed data (group_key r) = [] then None
              else Some (group_key r, ?f (group_key r)))) data" .
  show ?thesis
    using q unfolding add_lottr_to_dataset_def groupby_agg_ok[OF q]
    by (simp add: m comp_def)
qed


lemma floor_minus_one_real: "\<lfloor>- 1 :: real\<rfloor> = - 1"
  using floor_of_int[of "- 1", where ?'a = real] by simp

lemmas eval_lottr = floor_minus_one_real parity_tie_def add_lottr_to_dataset_def groupby_agg_def dropna_TT_SEC_def group_key_def
     percentile_def closest_observation_def merge_left_def add_lottr_row_def truediv_def Let_def
     List.map_filter_simps

section \<open>Properties of the Reliability Calculator\<close>

text \<open>
  Claim C2. For percentiles \<open>q1\<close> and \<open>q2\<close> in the range 0 to 100 the calculator returns
  a frame, and in every row whose (segment, time of day) group has a travel time that is
  not missing, each of the two percentile values is the travel time of some row of that
  group: an observation, never a value between two observations.
\<close>

theorem percentiles_are_observations:
  assumes "0 \<le> q1" "q1 \<le> 100" "0 \<le> q2" "q2 \<le> 100"
  shows "\<exists>out. add_lottr_to_dataset tie data q1 q2 = Inr out \<and>
      (\<forall>r\<in>set out. (\<exists>a\<in>set data. group_key a = group_key r \<and> TT_SEC a \<noteq> None) \<longrightarrow>
         (\<exists>a\<in>set data. group_key a = group_key r \<and> TT_SEC a \<noteq> None \<and> TTQ1P r = TT_SEC a) \<and>
         (\<exists>b\<in>set data. group_key b = group_key r \<and> TT_SEC b \<noteq> None \<and> TTQ2P r = TT_SEC b))"
proof -
  let ?row = "\<lambda>r. add_lottr_row (r,
              if observed data (group_key r) = [] then None
              else Some (group_key r, pick tie (observed data (group_key r)) q1,
                                      pick tie (observed data (group_key r)) q2))"
  have out: "add_lottr_to_dataset tie data q1 q2 = Inr (map ?row data)"
    by (rule add_lottr_to_dataset_ok[OF assms])
  have "(\<exists>a\<in>set data. group_key a = group_key (?row d) \<and> TT_SEC a \<noteq> None \<and> TTQ1P (?row d) = TT_SEC a) \<and>
        (\<exists>b\<in>set data. group_key b = group_key (?row d) \<and> TT_SEC b \<noteq> None \<and> TTQ2P (?row d) = TT_SEC b)"
    if ne: "\<exists>a\<in>set data. group_key a = group_key (?row d) \<and> TT_SEC a \<noteq> None" for d
  proof -
    have k: "group_key (?row d) = group_key d"
      by simp
    from ne have "set (observed data (group_key d)) \<noteq> {}"
      unfolding k set_observed by auto
    then have ne': "observed data (group_key d) \<noteq> []" by auto
    have "pick tie (observed data (group_key d)) q1 \<in> set (observed data (group_key d))"
      "pick tie (observed data (group_key d)) q2 \<in> set (observed data (group_key d))"
      using percentile_pick(2)[OF ne'] assms by blast+
    then obtain a b where "a \<in> set data" "group_key a = group_key d"
         "TT_SEC a = Some (pick tie (observed data (group_key d)) q1)"
       and "b \<in> set data" "group_key b = group_key d"
         "TT_SEC b = Some (pick tie (observed data (group_key d)) q2)"
      unfolding set_observed by auto
    then show ?thesis
      unfolding k using ne' by auto
  qed
  then show ?thesis unfolding out by auto
qed

theorem percentiles_are_observations_witness:
  "\<exists>out. add_lottr_to_dataset (parity_tie 1) ex_AM 50 100 = Inr out \<and> map TTQ1P out = replicate 6 (Some 10)
     \<and> map TTQ2P out = replicate 6 (Some 20) \<and>
      (\<forall>r\<in>set out.
         (\<exists>a\<in>set ex_AM. group_key a = group_key r \<and> TT_SEC a \<noteq> None \<and> TTQ1P r = TT_SEC a) \<and>
         (\<exists>b\<in>set ex_AM. group_key b = group_key r \<and> TT_SEC b \<noteq> None \<and> TTQ2P r = TT_SEC b))"
proof -
  from percentiles_are_observations[of 50 100 "parity_tie 1" ex_AM]
  obtain out where out: "add_lottr_to_dataset (parity_tie 1) ex_AM 50 100 = Inr out"
    and p: "\<forall>r\<in>set out. (\<exists>a\<in>set ex_AM. group_key a = group_key r \<and> TT_SEC a \<noteq> None) \<longrightarrow>
         (\<exists>a\<in>set ex_AM. group_key a = group_key r \<and> TT_SEC a \<noteq> None \<and> TTQ1P r = TT_SEC a) \<and>
         (\<exists>b\<in>set ex_AM. group_key b = group_key r \<and> TT_SEC b \<noteq> None \<and> TTQ2P r = TT_SEC b)"
    by auto
  have ev: "add_lottr_to_dataset (parity_tie 1) ex_AM 50 100 = Inr (map (\<lambda>r. add_lottr_row (r, Some ((''X'', ''AM''), 10, 20))) ex_AM)"
    by (simp add: eval_lottr ex_AM_def)
  have h: "\<exists>a\<in>set ex_AM. group_key a = group_key r \<and> TT_SEC a \<noteq> None" if "r \<in> set out" for r
    using that out unfolding ev by (auto simp: ex_AM_def group_key_def)
  have "map TTQ1P out = replicate 6 (Some 10)" "map TTQ2P out = replicate 6 (Some 20)"
    using out unfolding ev by (auto simp: ex_AM_def numeral_eq_Suc)
  with out p h show ?thesis by auto
qed

text \<open>
  Claim C8. The calculator fails with its validation error exactly when \<open>q1\<close> or \<open>q2\<close> is
  below 0 or above 100, and returns a frame exactly when both lie in the range, 0 and 100
  included. The test is the first thing the function does: for arguments out of range the
  result is that error whatever the frame holds, so nothing is dropped, grouped or
  computed, and the function works on a copy of its input in any case. In particular
  \<open>- 1\<close> and 101 are rejected in either position.
\<close>

theorem percentile_arguments_validated:
  "(add_lottr_to_dataset tie data q1 q2 = Inl (Exception ''q1 and q2 must be between 0 and 100.'')
      \<longleftrightarrow> q1 < 0 \<or> 100 < q1 \<or> q2 < 0 \<or> 100 < q2)
   \<and> ((\<exists>out. add_lottr_to_dataset tie data q1 q2 = Inr out)
      \<longleftrightarrow> 0 \<le> q1 \<and> q1 \<le> 100 \<and> 0 \<le> q2 \<and> q2 \<le> 100)
   \<and> (q1 < 0 \<or> 100 < q1 \<or> q2 < 0 \<or> 100 < q2 \<longrightarrow>
        add_lottr_to_dataset tie data q1 q2 = add_lottr_to_dataset tie data' q1 q2)
   \<and> add_lottr_to_dataset tie data (- 1) q2 = Inl (Exception ''q1 and q2 must be between 0 and 100.'')
   \<and> add_lottr_to_dataset tie data 101 q2 = Inl (Exception ''q1 and q2 must be between 0 and 100.'')
   \<and> add_lottr_to_dataset tie data q1 (- 1) = Inl (Exception ''q1 and q2 must be between 0 and 100.'')
   \<and> add_lottr_to_dataset tie data q1 101 = Inl (Exception ''q1 and q2 must be between 0 and 100.'')"
proof -
  have bad: "add_lottr_to_dataset tie d q1 q2 = Inl (Exception ''q1 and q2 must be between 0 and 100.'')"
    if "q1 < 0 \<or> 100 < q1 \<or> q2 < 0 \<or> 100 < q2" for d q1 q2
    using that by (auto simp: add_lottr_to_dataset_def)
  have good: "\<exists>out. add_lottr_to_dataset tie data q1 q2 = Inr out"
    if "0 \<le> q1 \<and> q1 \<le> 100 \<and> 0 \<le> q2 \<and> q2 \<le> 100"
    using that add_lottr_to_dataset_ok[of q1 q2 tie data] by blast
  have a: "add_lottr_to_dataset tie data q1 q2 = Inl (Exception ''q1 and q2 must be between 0 and 100.'')
      \<longleftrightarrow> q1 < 0 \<or> 100 < q1 \<or> q2 < 0 \<or> 100 < q2"
  proof
    assume l: "add_lottr_to_dataset tie data q1 q2 = Inl (Exception ''q1 and q2 must be between 0 and 100.'')"
    show "q1 < 0 \<or> 100 < q1 \<or> q2 < 0 \<or> 100 < q2"
    proof (rule ccontr)
      assume "\<not> (q1 < 0 \<or> 100 < q1 \<or> q2 < 0 \<or> 100 < q2)"
      then have "0 \<le> q1 \<and> q1 \<le> 100 \<and> 0 \<le> q2 \<and> q2 \<le> 100" by simp
      from good[OF this] l show False by simp
    qed
  qed (rule bad)
  have b: "(\<exists>out. add_lottr_to_dataset tie data q1 q2 = Inr out)
      \<longleftrightarrow> 0 \<le> q1 \<and> q1 \<le> 100 \<and> 0 \<le> q2 \<and> q2 \<le> 100"
  proof
    assume r: "\<exists>out. add_lottr_to_dataset tie data q1 q2 = Inr out"
    show "0 \<le> q1 \<and> q1 \<le> 100 \<and> 0 \<le> q2 \<and> q2 \<le> 100"
    proof (rule ccontr)
      assume "\<not> (0 \<le> q1 \<and> q1 \<le> 100 \<and> 0 \<le> q2 \<and> q2 \<le> 100)"
      then have "q1 < 0 \<or> 100 < q1 \<or> q2 < 0 \<or> 100 < q2" by auto
      from bad[OF this, of data] r show False by simp
    qed
  qed (rule good)
  have c: "q1 < 0 \<or> 100 < q1 \<or> q2 < 0 \<or> 100 < q2 \<longrightarrow>
        add_lottr_to_dataset tie data q1 q2 = add_lottr_to_dataset tie data' q1 q2"
    by (simp add: bad)
  have d: "add_lottr_to_dataset tie data (- 1) q2 = Inl (Exception ''q1 and q2 must be between 0 and 100.'')"
    "add_lottr_to_dataset tie data 101 q2 = Inl (Exception ''q1 and q2 must be between 0 and 100.'')"
    "add_lottr_to_dataset tie data q1 (- 1) = Inl (Exception ''q1 and q2 must be between 0 and 100.'')"
    "add_lottr_to_dataset tie data q1 101 = Inl (Exception ''q1 and q2 must be between 0 and 100.'')"
    by (simp_all add: bad)
  from a b c d show ?thesis by blast
qed

theorem percentile_arguments_validated_witness:
  "add_lottr_to_dataset (parity_tie 1) ex_AM (- 1) 80 = Inl (Exception ''q1 and q2 must be between 0 and 100.'')
   \<and> add_lottr_to_dataset (parity_tie 1) ex_AM 50 101 = Inl (Exception ''q1 and q2 must be between 0 and 100.'')
   \<and> add_lottr_to_dataset (parity_tie 1) ex_AM 50 101 = add_lottr_to_dataset (parity_tie 1) [] 50 101
   \<and> (\<exists>out. add_lottr_to_dataset (parity_tie 1) ex_AM 0 100 = Inr out)
   \<and> (\<exists>out. add_lottr_to_dataset (parity_tie 1) ex_AM 50 80 = Inr out)"
  using percentile_arguments_validated[of "parity_tie 1" ex_AM "- 1" 80]
    percentile_arguments_validated[of "parity_tie 1" ex_AM 50 101 "[]"]
    percentile_arguments_validated[of "parity_tie 1" ex_AM 0 100]
    percentile_arguments_validated[of "parity_tie 1" ex_AM 50 80]
  by simp

text \<open>
  Claim C5. The percentiles of a group are computed from the travel times of the group
  that are not missing, and from nothing else: a missing travel time counts neither as
  zero nor against its group. The output is the input frame, row by row and in order,
  with the new columns; the rows of a group without any travel time get two missing
  percentile values, all other rows the two observations picked from their group.
\<close>

theorem missing_travel_times_ignored:
  assumes "0 \<le> q1" "q1 \<le> 100" "0 \<le> q2" "q2 \<le> 100"
  shows "\<exists>out. add_lottr_to_dataset tie data q1 q2 = Inr out
     \<and> map tod_row.truncate out = data
     \<and> (\<forall>r\<in>set out.
          set (observed data (group_key r))
            = {v. \<exists>a\<in>set data. group_key a = group_key r \<and> TT_SEC a = Some v}
          \<and> (if observed data (group_key r) = [] then TTQ1P r = None \<and> TTQ2P r = None
             else TTQ1P r = Some (pick tie (observed data (group_key r)) q1)
                \<and> TTQ2P r = Some (pick tie (observed data (group_key r)) q2)))"
proof -
  let ?row = "\<lambda>r. add_lottr_row (r,
              if observed data (group_key r) = [] then None
              else Some (group_key r, pick tie (observed data (group_key r)) q1,
                                      pick tie (observed data (group_key r)) q2))"
  have out: "add_lottr_to_dataset tie data q1 q2 = Inr (map ?row data)"
    by (rule add_lottr_to_dataset_ok[OF assms])
  have "tod_row.truncate (add_lottr_row (r, p)) = r" for r p
    by (simp add: tod_row.truncate_def add_lottr_row_def Let_def)
  then have tr: "map tod_row.truncate (map ?row data) = data"
    by (simp add: comp_def)
  show ?thesis
    unfolding out using tr by (auto simp: set_observed)
qed

theorem missing_travel_times_ignored_witness:
  "(\<exists>out. add_lottr_to_dataset (parity_tie 1) ex_AM 0 100 = Inr out
       \<and> map tod_row.truncate out = ex_AM
       \<and> map TT_SEC out = [Some 10, Some 10, Some 20, None, Some 10, Some 10]
       \<and> map TTQ1P out = [Some 10, Some 10, Some 10, Some 10, Some 10, Some 10]
       \<and> map TTQ2P out = [Some 20, Some 20, Some 20, Some 20, Some 20, Some 20])
   \<and> (\<exists>out. add_lottr_to_dataset (parity_tie 1) ex_zero 0 100 = Inr out
       \<and> map tod_row.truncate out = ex_zero
       \<and> map TT_SEC out = [Some 0, Some 120, None, Some 110, Some 220]
       \<and> map TTQ1P out = [Some 0, Some 0, None, Some 110, Some 110]
       \<and> map TTQ2P out = [Some 120, Some 120, None, Some 220, Some 220])"
proof -
  from missing_travel_times_ignored[of 0 100 "parity_tie 1" ex_AM]
  obtain out where out: "add_lottr_to_dataset (parity_tie 1) ex_AM 0 100 = Inr out"
    and tr: "map tod_row.truncate out = ex_AM"
    by auto
  from missing_travel_times_ignored[of 0 100 "parity_tie 1" ex_zero]
  obtain out' where out': "add_lottr_to_dataset (parity_tie 1) ex_zero 0 100 = Inr out'"
    and tr': "map tod_row.truncate out' = ex_zero"
    by auto
  have ev: "add_lottr_to_dataset (parity_tie 1) ex_AM 0 100
      = Inr (map (\<lambda>r. add_lottr_row (r, Some ((''X'', ''AM''), 10, 20))) ex_AM)"
    by (simp add: eval_lottr ex_AM_def)
  have ev': "add_lottr_to_dataset (parity_tie 1) ex_zero 0 100
     = Inr (map add_lottr_row (zip ex_zero
         [Some ((''X'', ''AM''), 0, 120), Some ((''X'', ''AM''), 0, 120), None,
          Some ((''X'', ''MD''), 110, 220), Some ((''X'', ''MD''), 110, 220)]))"
    by (simp add: eval_lottr ex_zero_def)
  have a: "map TT_SEC out = [Some 10, Some 10, Some 20, None, Some 10, Some 10]"
    "map TTQ1P out = [Some 10, Some 10, Some 10, Some 10, Some 10, Some 10]"
    "map TTQ2P out = [Some 20, Some 20, Some 20, Some 20, Some 20, Some 20]"
    using out unfolding ev by (auto simp: ex_AM_def)
  have b: "map TT_SEC out' = [Some 0, Some 120, None, Some 110, Some 220]"
    "map TTQ1P out' = [Some 0, Some 0, None, Some 110, Some 110]"
    "map TTQ2P out' = [Some 120, Some 120, None, Some 220, Some 220]"
    using out' unfolding ev' by (auto simp: ex_zero_def)
  from out tr a out' tr' b show ?thesis by simp
qed

text \<open>
  Claim C3, as stated, fails: the rank closest to \<open>q * (n - 1) / 100\<close> is not the
  observation that \<^verbatim>\<open>closest_observation\<close> selects. For the sample 1, 2, 3, 4, 5 the 20th
  percentile is 1, where the rule of the claim gives rank 1, which counted from 0 is the
  value 2; and the 80th percentile is 4, where the rule gives rank 3, which counted from
  1 is the value 3. So neither way of counting ranks makes the rule right. (Neither
  percentile is at an exact tie, so the tie rule plays no part.)
\<close>

theorem spec_rank_rule_counterexample:
  "percentile (parity_tie 0) [1, 2, 3, 4, 5] 20 = Inr 1
   \<and> percentile (parity_tie 1) [1, 2, 3, 4, 5] 20 = Inr 1
   \<and> spec_rank 5 20 = 1 \<and> sort [1, 2, 3, 4, 5 :: real] ! nat (spec_rank 5 20) = 2
   \<and> percentile (parity_tie 0) [1, 2, 3, 4, 5] 80 = Inr 4
   \<and> percentile (parity_tie 1) [1, 2, 3, 4, 5] 80 = Inr 4
   \<and> spec_rank 5 80 = 3 \<and> sort [1, 2, 3, 4, 5 :: real] ! (nat (spec_rank 5 80) - 1) = 3"
  by (simp add: percentile_def closest_observation_def Let_def spec_rank_def round_def)

lemma closest_observation_ceiling:
  assumes "real n * quantile - 3 / 2 \<notin> \<int>"
  shows "closest_observation tie n quantile = max 0 \<lceil>real n * quantile - 3 / 2\<rceil>"
proof -
  define index where "index = real n * quantile - 3 / 2"
  have i: "real n * quantile - 1 - 0.5 = index" by (simp add: index_def)
  from assms have "index \<noteq> of_int \<lfloor>index\<rfloor>"
    unfolding index_def by (metis Ints_of_int)
  then have "index - of_int \<lfloor>index\<rfloor> \<noteq> 0" "\<lceil>index\<rceil> = \<lfloor>index\<rfloor> + 1"
    by (simp_all add: ceiling_altdef)
  then show ?thesis
    unfolding closest_observation_def i index_def[symmetric] by (simp add: Let_def max_def)
qed

lemma closest_observation_tie:
  assumes "real n * quantile - 3 / 2 \<in> \<int>"
  shows "closest_observation tie n quantile
     = max 0 (if tie n quantile then \<lfloor>real n * quantile - 3 / 2\<rfloor>
              else \<lfloor>real n * quantile - 3 / 2\<rfloor> + 1)"
proof -
  define index where "index = real n * quantile - 3 / 2"
  have i: "real n * quantile - 1 - 0.5 = index" by (simp add: index_def)
  from assms obtain k :: int where "index = of_int k"
    unfolding index_def by (auto elim: Ints_cases)
  then have "index - of_int \<lfloor>index\<rfloor> = 0" by simp
  then show ?thesis
    unfolding closest_observation_def i index_def[symmetric] by (simp add: Let_def max_def)
qed

text \<open>
  Claim C3, amended. The percentile is the observation of the sorted group at the index,
  counted from 0, that is the ceiling of \<open>n * q / 100 - 3 / 2\<close>, or 0 when that is negative;
  when \<open>n * q / 100 - 3 / 2\<close> is an integer the index is that integer or the next one (by
  the tie rule), again 0 when negative. For the sample 10, 10, 10, 10, 20 the 50th
  percentile is 10 and the 80th percentile is the observation at index 3, the ceiling of
  \<open>5 * 0.8 - 1.5\<close>, which is 10.
\<close>

theorem closest_observation_rank:
  "percentile tie [10, 10, 10, 10, 20] 50 = Inr 10
   \<and> percentile tie [10, 10, 10, 10, 20] 80 = Inr 10
   \<and> closest_observation tie 5 (80 / 100) = 3
   \<and> \<lceil>5 * (80 / 100) - 3 / 2 :: real\<rceil> = 3
   \<and> (x \<noteq> [] \<and> 0 \<le> q \<and> q \<le> 100 \<longrightarrow>
        percentile tie x q = Inr (sort x ! nat (closest_observation tie (length x) (of_int q / 100))))
   \<and> (real n * (of_int q / 100) - 3 / 2 \<notin> \<int> \<longrightarrow>
        closest_observation tie n (of_int q / 100) = max 0 \<lceil>real n * (of_int q / 100) - 3 / 2\<rceil>)
   \<and> (real n * (of_int q / 100) - 3 / 2 \<in> \<int> \<longrightarrow>
        closest_observation tie n (of_int q / 100)
          = max 0 (if tie n (of_int q / 100) then \<lfloor>real n * (of_int q / 100) - 3 / 2\<rfloor>
                   else \<lfloor>real n * (of_int q / 100) - 3 / 2\<rfloor> + 1))
   \<and> (real n * (of_int q / 100) - 3 / 2 \<in> \<int> \<longrightarrow>
        closest_observation tie n (of_int q / 100)
          \<in> {max 0 \<lfloor>real n * (of_int q / 100) - 3 / 2\<rfloor>,
              max 0 (\<lfloor>real n * (of_int q / 100) - 3 / 2\<rfloor> + 1)})"
proof -
  have a: "percentile tie [10, 10, 10, 10, 20] 50 = Inr 10"
    "percentile tie [10, 10, 10, 10, 20] 80 = Inr 10"
    "closest_observation tie 5 (80 / 100) = 3"
    by (simp_all add: percentile_def closest_observation_def Let_def)
  have b: "\<lceil>5 * (80 / 100) - 3 / 2 :: real\<rceil> = 3" by simp
  have c: "x \<noteq> [] \<and> 0 \<le> q \<and> q \<le> 100 \<longrightarrow>
        percentile tie x q = Inr (sort x ! nat (closest_observation tie (length x) (of_int q / 100)))"
    using percentile_ok(1)[of x q tie] by blast
  have d: "real n * (of_int q / 100) - 3 / 2 \<notin> \<int> \<longrightarrow>
        closest_observation tie n (of_int q / 100) = max 0 \<lceil>real n * (of_int q / 100) - 3 / 2\<rceil>"
    using closest_observation_ceiling[of n "of_int q / 100" tie] by blast
  have e: "real n * (of_int q / 100) - 3 / 2 \<in> \<int> \<longrightarrow>
        closest_observation tie n (of_int q / 100)
          = max 0 (if tie n (of_int q / 100) then \<lfloor>real n * (of_int q / 100) - 3 / 2\<rfloor>
                   else \<lfloor>real n * (of_int q / 100) - 3 / 2\<rfloor> + 1)"
    using closest_observation_tie[of n "of_int q / 100" tie] by blast
  have f: "real n * (of_int q / 100) - 3 / 2 \<in> \<int> \<longrightarrow>
        closest_observation tie n (of_int q / 100)
          \<in> {max 0 \<lfloor>real n * (of_int q / 100) - 3 / 2\<rfloor>,
              max 0 (\<lfloor>real n * (of_int q / 100) - 3 / 2\<rfloor> + 1)}"
  proof
    assume "real n * (of_int q / 100) - 3 / 2 \<in> \<int>"
    with e have "closest_observation tie n (of_int q / 100)
          = max 0 (if tie n (of_int q / 100) then \<lfloor>real n * (of_int q / 100) - 3 / 2\<rfloor>
                   else \<lfloor>real n * (of_int q / 100) - 3 / 2\<rfloor> + 1)" by (rule mp)
    then show "closest_observation tie n (of_int q / 100)
          \<in> {max 0 \<lfloor>real n * (of_int q / 100) - 3 / 2\<rfloor>,
              max 0 (\<lfloor>real n * (of_int q / 100) - 3 / 2\<rfloor> + 1)}"
      by (cases "tie n (of_int q / 100)") simp_all
  qed
  from a b c d e f show ?thesis by (intro conjI)
qed

theorem closest_observation_rank_witness:
  "percentile (parity_tie 1) [1, 2, 3, 4, 5] 20
     = Inr (sort [1, 2, 3, 4, 5] !
         nat (closest_observation (parity_tie 1) (length [1, 2, 3, 4, 5 :: real]) (of_int 20 / 100)))
   \<and> closest_observation (parity_tie 1) 5 (of_int 20 / 100)
       = max 0 \<lceil>real 5 * (of_int 20 / 100) - 3 / 2\<rceil>
   \<and> closest_observation (parity_tie 1) 5 (of_int 20 / 100) = 0
   \<and> percentile (parity_tie 1) [1, 2, 3, 4, 5] 20 = Inr 1
   \<and> closest_observation (parity_tie 1) 5 (of_int 50 / 100)
       = max 0 (if parity_tie 1 5 (of_int 50 / 100) then \<lfloor>real 5 * (of_int 50 / 100) - 3 / 2\<rfloor>
                else \<lfloor>real 5 * (of_int 50 / 100) - 3 / 2\<rfloor> + 1)
   \<and> closest_observation (parity_tie 1) 5 (of_int 50 / 100) = 1
   \<and> closest_observation (parity_tie 0) 5 (of_int 50 / 100) = 2
   \<and> percentile (parity_tie 1) [1, 2, 3, 4, 5] 50 = Inr 2
   \<and> percentile (parity_tie 0) [1, 2, 3, 4, 5] 50 = Inr 3"
proof -
  have "(5 * (20 / 100) - 3 / 2 :: real) = - (1 / 2)" by simp
  moreover have "- (1 / 2 :: real) \<notin> \<int>"
  proof
    assume "- (1 / 2 :: real) \<in> \<int>"
    then obtain k :: int where "- (1 / 2 :: real) = of_int k" by (auto elim: Ints_cases)
    then have "of_int (2 * k) = (- 1 :: real)" by simp
    then have "2 * k = - 1" by (metis of_int_eq_iff of_int_minus of_int_1)
    then show False by presburger
  qed
  ultimately have ni: "real 5 * (of_int 20 / 100) - 3 / 2 \<notin> \<int>" by simp
  have "real 5 * (of_int 50 / 100) - 3 / 2 = 1" by simp
  then have ti: "real 5 * (of_int 50 / 100) - 3 / 2 \<in> \<int>" by (simp only: Ints_1)
  have h: "[1, 2, 3, 4, 5 :: real] \<noteq> [] \<and> (0 :: int) \<le> 20 \<and> (20 :: int) \<le> 100" by simp
  note t = closest_observation_rank[where tie = "parity_tie 1" and x = "[1, 2, 3, 4, 5]"
      and q = 20 and n = 5]
  note t' = closest_observation_rank[where tie = "parity_tie 1" and x = "[1, 2, 3, 4, 5]"
      and q = 50 and n = 5]
  from t have "[1, 2, 3, 4, 5 :: real] \<noteq> [] \<and> (0 :: int) \<le> 20 \<and> (20 :: int) \<le> 100 \<longrightarrow>
      percentile (parity_tie 1) [1, 2, 3, 4, 5] 20
     = Inr (sort [1, 2, 3, 4, 5] !
         nat (closest_observation (parity_tie 1) (length [1, 2, 3, 4, 5 :: real]) (of_int 20 / 100)))"
    by (rule conjunct2[THEN conjunct2, THEN conjunct2, THEN conjunct2, THEN conjunct1])
  from this h have a: "percentile (parity_tie 1) [1, 2, 3, 4, 5] 20
     = Inr (sort [1, 2, 3, 4, 5] !
         nat (closest_observation (parity_tie 1) (length [1, 2, 3, 4, 5 :: real]) (of_int 20 / 100)))"
    by (rule mp)
  from t have "real 5 * (of_int 20 / 100) - 3 / 2 \<notin> \<int> \<longrightarrow>
      closest_observation (parity_tie 1) 5 (of_int 20 / 100)
       = max 0 \<lceil>real 5 * (of_int 20 / 100) - 3 / 2\<rceil>"
    by (rule conjunct2[THEN conjunct2, THEN conjunct2, THEN conjunct2, THEN conjunct2, THEN conjunct1])
  from this ni have b: "closest_observation (parity_tie 1) 5 (of_int 20 / 100)
       = max 0 \<lceil>real 5 * (of_int 20 / 100) - 3 / 2\<rceil>"
    by (rule mp)
  from t' have "real 5 * (of_int 50 / 100) - 3 / 2 \<in> \<int> \<longrightarrow>
      closest_observation (parity_tie 1) 5 (of_int 50 / 100)
       = max 0 (if parity_tie 1 5 (of_int 50 / 100) then \<lfloor>real 5 * (of_int 50 / 100) - 3 / 2\<rfloor>
                else \<lfloor>real 5 * (of_int 50 / 100) - 3 / 2\<rfloor> + 1)"
    by (rule conjunct2[THEN conjunct2, THEN conjunct2, THEN conjunct2, THEN conjunct2,
          THEN conjunct2, THEN conjunct1])
  from this ti have c: "closest_observation (parity_tie 1) 5 (of_int 50 / 100)
       = max 0 (if parity_tie 1 5 (of_int 50 / 100) then \<lfloor>real 5 * (of_int 50 / 100) - 3 / 2\<rfloor>
                else \<lfloor>real 5 * (of_int 50 / 100) - 3 / 2\<rfloor> + 1)"
    by (rule mp)
  have d: "closest_observation (parity_tie 1) 5 (of_int 20 / 100) = 0"
    "percentile (parity_tie 1) [1, 2, 3, 4, 5] 20 = Inr 1"
    "closest_observation (parity_tie 1) 5 (of_int 50 / 100) = 1"
    "closest_observation (parity_tie 0) 5 (of_int 50 / 100) = 2"
    "percentile (parity_tie 1) [1, 2, 3, 4, 5] 50 = Inr 2"
    "percentile (parity_tie 0) [1, 2, 3, 4, 5] 50 = Inr 3"
    by (simp_all add: percentile_def closest_observation_def parity_tie_def Let_def)
  from a b d(1,2) c d(3-6) show ?thesis by (intro conjI)
qed

section \<open>Rows of the merged frame and of the truck frame\<close>

lemma join_row_fields [simp]:
  "tmc_code (join_row (p, m)) = tmc_code p"
  "DATETIME (join_row (p, m)) = DATETIME p"
  "MPH (join_row (p, m)) = MPH p"
  "TT_SEC (join_row (p, m)) = TT_SEC p"
  "HOD (join_row (p, m)) = HOD p"
  "DOW (join_row (p, m)) = DOW p"
  "TOD (join_row (p, m)) = TOD p"
  "TTQ1P (join_row (p, m)) = TTQ1P p"
  "TTQ2P (join_row (p, m)) = TTQ2P p"
  "LOTTR (join_row (p, m)) = LOTTR p"
  "TRK_MPH (join_row (p, m)) = Option.bind m MPH"
  "TRK_TT_SEC (join_row (p, m)) = Option.bind m TT_SEC"
  "TRK_TTQ1P (join_row (p, m)) = Option.bind m TTQ1P"
  "TRK_TTQ2P (join_row (p, m)) = Option.bind m TTQ2P"
  "TRK_LOTTR (join_row (p, m)) = (case m of None \<Rightarrow> NaN | Some t \<Rightarrow> LOTTR t)"
  "FLAG (join_row (p, m)) = (if Option.bind m TT_SEC = None then 1 else 0)"
  by (simp_all add: join_row_def Let_def fillna_def)

lemma truncate_join_row [simp]: "lottr_row.truncate (join_row (p, m)) = p"
  by (simp add: lottr_row.truncate_def join_row_def Let_def)

lemma impute_row_fields [simp]:
  "tmc_code (impute_row r) = tmc_code r"
  "DATETIME (impute_row r) = DATETIME r"
  "MPH (impute_row r) = MPH r"
  "TT_SEC (impute_row r) = TT_SEC r"
  "HOD (impute_row r) = HOD r"
  "DOW (impute_row r) = DOW r"
  "TOD (impute_row r) = TOD r"
  "TTQ1P (impute_row r) = TTQ1P r"
  "TTQ2P (impute_row r) = TTQ2P r"
  "LOTTR (impute_row r) = LOTTR r"
  "TRK_MPH (impute_row r) = (if TRK_TT_SEC r = None then MPH r else TRK_MPH r)"
  "TRK_TT_SEC (impute_row r) = (if TRK_TT_SEC r = None then TT_SEC r else TRK_TT_SEC r)"
  "TRK_TTQ1P (impute_row r) = TRK_TTQ1P r"
  "TRK_TTQ2P (impute_row r) = TRK_TTQ2P r"
  "TRK_LOTTR (impute_row r) = TRK_LOTTR r"
  "FLAG (impute_row r) = FLAG r"
  by (simp_all add: impute_row_def)

lemma truncate_impute_row [simp]: "lottr_row.truncate (impute_row r) = lottr_row.truncate r"
  by (simp add: lottr_row.truncate_def)

lemma row_key_simps [simp]:
  "row_key (join_row (p, m)) = row_key p"
  "row_key (impute_row r) = row_key r"
  "row_key (add_lottr_row (d, x)) = row_key d"
  "row_key (add_hod_dow_tod_row ob) = row_key ob"
  by (simp_all add: row_key_def add_hod_dow_tod_row_def Let_def)

lemma merge_left_snd:
  assumes "(l, Some r) \<in> set (merge_left kl kr left right)"
  shows "l \<in> set left \<and> r \<in> set right \<and> kr r = kl l"
proof -
  from assms obtain l' where l': "l' \<in> set left"
    and m: "(l, Some r) \<in> set (case filter (\<lambda>r. kr r = kl l') right of [] \<Rightarrow> [(l', None)]
                      | m # ms \<Rightarrow> map (\<lambda>r. (l', Some r)) (m # ms))"
    unfolding merge_left_def by auto
  from m have "l = l' \<and> r \<in> set (filter (\<lambda>r. kr r = kl l') right)"
    by (cases "filter (\<lambda>r. kr r = kl l') right") auto
  with l' show ?thesis by auto
qed

lemma merge_left_none:
  assumes "(l, None) \<in> set (merge_left kl kr left right)"
  shows "l \<in> set left \<and> kl l \<notin> kr ` set right"
proof -
  from assms obtain l' where l': "l' \<in> set left"
    and m: "(l, None) \<in> set (case filter (\<lambda>r. kr r = kl l') right of [] \<Rightarrow> [(l', None)]
                      | m # ms \<Rightarrow> map (\<lambda>r. (l', Some r)) (m # ms))"
    unfolding merge_left_def by auto
  from m have "l = l' \<and> filter (\<lambda>r. kr r = kl l') right = []"
    by (cases "filter (\<lambda>r. kr r = kl l') right") auto
  with l' show ?thesis by (auto simp: filter_empty_conv)
qed

lemma merge_left_covers:
  assumes "l \<in> set left"
  shows "\<exists>m. (l, m) \<in> set (merge_left kl kr left right)"
proof -
  let ?c = "\<lambda>l. case filter (\<lambda>r. kr r = kl l) right of [] \<Rightarrow> [(l, None)]
                      | m # ms \<Rightarrow> map (\<lambda>r. (l, Some r)) (m # ms)"
  have "\<exists>m. (l, m) \<in> set (?c l)"
    by (cases "filter (\<lambda>r. kr r = kl l) right") auto
  then obtain m where "(l, m) \<in> set (?c l)" ..
  with assms have "(l, m) \<in> set (concat (map ?c left))"
    unfolding set_concat by (intro UN_I[of "?c l"]) auto
  then show ?thesis unfolding merge_left_def by blast
qed

lemma add_lottr_to_dataset_shape:
  assumes "0 \<le> q1" "q1 \<le> 100" "0 \<le> q2" "q2 \<le> 100"
  shows "\<exists>f. add_lottr_to_dataset tie data q1 q2 = Inr (map (\<lambda>r. add_lottr_row (r, f r)) data)"
  by (rule exI[of _ "\<lambda>r. if observed data (group_key r) = [] then None
              else Some (group_key r, pick tie (observed data (group_key r)) q1,
                                      pick tie (observed data (group_key r)) q2)"])
     (rule add_lottr_to_dataset_ok[OF assms])

lemma restrict_trk_filter:
  "restrict_trk data_int (filter (\<lambda>t. row_key t \<in> row_key ` set data_int) trk) = restrict_trk data_int trk"
  using merge_left_filter_right[of id row_key "map row_key data_int" trk]
  by (simp add: restrict_trk_def)

lemma restrict_trk_rows:
  assumes "s \<in> set (restrict_trk data_int trk)"
  shows "row_key s \<in> row_key ` set data_int \<and>
     ((\<exists>t\<in>set trk. row_key t = row_key s \<and> MPH s = MPH t \<and> TT_SEC s = TT_SEC t)
      \<or> (row_key s \<notin> row_key ` set trk \<and> MPH s = None \<and> TT_SEC s = None))"
proof -
  from assms obtain k m where km: "(k, m) \<in> set (merge_left id row_key (map row_key data_int) trk)"
    and s: "s = \<lparr>tmc_code = fst k, DATETIME = snd k, MPH = Option.bind m MPH, TT_SEC = Option.bind m TT_SEC\<rparr>"
    unfolding restrict_trk_def by auto
  have ks: "row_key s = k" by (simp add: s row_key_def)
  show ?thesis
  proof (cases m)
    case None
    with km have "k \<in> set (map row_key data_int) \<and> id k \<notin> row_key ` set trk"
      by (auto dest: merge_left_none)
    with None show ?thesis by (simp add: ks) (simp add: s)
  next
    case (Some t)
    with km have "k \<in> set (map row_key data_int) \<and> t \<in> set trk \<and> row_key t = id k"
      by (auto dest: merge_left_snd)
    with Some show ?thesis by (simp add: ks) (auto simp: s)
  qed
qed

lemma restrict_trk_keys:
  "row_key ` set (restrict_trk data_int trk) = row_key ` set data_int"
proof
  show "row_key ` set (restrict_trk data_int trk) \<subseteq> row_key ` set data_int"
    using restrict_trk_rows by blast
  show "row_key ` set data_int \<subseteq> row_key ` set (restrict_trk data_int trk)"
  proof
    fix k assume "k \<in> row_key ` set data_int"
    then have "k \<in> set (map row_key data_int)" by simp
    from merge_left_covers[OF this, of id row_key trk]
    obtain m where "(k, m) \<in> set (merge_left id row_key (map row_key data_int) trk)" ..
    then have "\<lparr>tmc_code = fst k, DATETIME = snd k, MPH = Option.bind m MPH, TT_SEC = Option.bind m TT_SEC\<rparr>
        \<in> set (restrict_trk data_int trk)"
      unfolding restrict_trk_def by force
    then have "row_key \<lparr>tmc_code = fst k, DATETIME = snd k, MPH = Option.bind m MPH, TT_SEC = Option.bind m TT_SEC\<rparr>
        \<in> row_key ` set (restrict_trk data_int trk)"
      by (rule imageI)
    then show "k \<in> row_key ` set (restrict_trk data_int trk)"
      by (simp add: row_key_def)
  qed
qed

lemma restrict_trk_distinct:
  assumes "distinct (map row_key trk)"
  shows "map row_key (restrict_trk data_int trk) = map row_key data_int"
proof -
  have "merge_left id row_key (map row_key data_int) trk
      = map (\<lambda>l. (l, find (\<lambda>r. row_key r = id l) trk)) (map row_key data_int)"
    by (rule merge_left_distinct[OF assms])
  then show ?thesis
    by (simp add: restrict_trk_def comp_def row_key_def)
qed

lemma truck_reliability_shape:
  "\<exists>f. truck_reliability tie data_int trk
     = Inr (map (\<lambda>r. add_lottr_row (r, f r)) (add_hod_dow_tod_to_dataset (restrict_trk data_int trk)))"
  unfolding truck_reliability_def by (rule add_lottr_to_dataset_shape) simp_all

lemma interstate_shape:
  "\<exists>f g. let P = map (\<lambda>r. add_lottr_row (r, f r)) (add_hod_dow_tod_to_dataset ohint);
             S = map (\<lambda>r. add_lottr_row (r, g r)) (add_hod_dow_tod_to_dataset (restrict_trk P ohintrk))
         in add_lottr_to_dataset tie (add_hod_dow_tod_to_dataset ohint) 50 80 = Inr P
          \<and> truck_reliability tie P ohintrk = Inr S
          \<and> interstate tie ohint ohintrk = Inr (merge_impute P S)"
proof -
  obtain f where f: "add_lottr_to_dataset tie (add_hod_dow_tod_to_dataset ohint) 50 80
      = Inr (map (\<lambda>r. add_lottr_row (r, f r)) (add_hod_dow_tod_to_dataset ohint))"
    using add_lottr_to_dataset_shape[of 50 80 tie "add_hod_dow_tod_to_dataset ohint"] by auto
  let ?P = "map (\<lambda>r. add_lottr_row (r, f r)) (add_hod_dow_tod_to_dataset ohint)"
  obtain g where g: "truck_reliability tie ?P ohintrk
     = Inr (map (\<lambda>r. add_lottr_row (r, g r)) (add_hod_dow_tod_to_dataset (restrict_trk ?P ohintrk)))"
    using truck_reliability_shape[of tie ?P ohintrk] by auto
  show ?thesis
    by (rule exI[of _ f], rule exI[of _ g]) (simp add: Let_def f g interstate_def)
qed

lemma keys_add_lottr_hod [simp]:
  "map row_key (map (\<lambda>r. add_lottr_row (r, f r)) (add_hod_dow_tod_to_dataset d)) = map row_key d"
  by (simp add: add_hod_dow_tod_to_dataset_def comp_def)

lemmas eval_interstate = interstate_def truck_reliability_def eval_lottr
  add_hod_dow_tod_to_dataset_def add_hod_dow_tod_row_def assign_tod_rule tod_rule_def
  dt_hour_def dt_dayofweek_def replace_def restrict_trk_def merge_impute_def merge_flag_def
  join_row_def impute_row_def fillna_def row_key_def

lemma truncate_merged: "lottr_row.truncate (join_row pm) = fst pm"
  by (cases pm) simp

lemma flag_merged:
  "FLAG (join_row pm)
     = (if (case snd pm of None \<Rightarrow> True | Some s \<Rightarrow> TT_SEC s = None) then 1 else 0)"
  by (cases pm) (simp split: option.splits)

lemma merge_impute_filter:
  "merge_impute P (filter (\<lambda>s. row_key s \<in> row_key ` set P) S) = merge_impute P S"
  by (simp add: merge_impute_def merge_flag_def merge_left_filter_right)

lemma merge_impute_truncate:
  "map lottr_row.truncate (merge_impute P S)
     = concat (map (\<lambda>p. replicate (max 1 (length (filter (\<lambda>s. row_key s = row_key p) S))) p) P)"
proof -
  have "map lottr_row.truncate (merge_impute P S) = map fst (merge_left row_key row_key P S)"
    by (simp add: merge_impute_def merge_flag_def comp_def truncate_merged)
  then show ?thesis by (simp only: merge_left_fst)
qed

lemma merge_impute_distinct:
  assumes "distinct (map row_key S)"
  shows "map lottr_row.truncate (merge_impute P S) = P"
  by (simp add: merge_impute_def merge_flag_def comp_def merge_left_distinct[OF assms] truncate_merged)

lemma merge_impute_rows:
  assumes "r \<in> set (merge_impute P S)"
  shows "lottr_row.truncate r \<in> set P"
    and "FLAG r = 0 \<or> FLAG r = 1"
    and "FLAG r = 1 \<Longrightarrow> TRK_MPH r = MPH r \<and> TRK_TT_SEC r = TT_SEC r"
    and "FLAG r = 0 \<Longrightarrow> \<exists>s\<in>set S. row_key s = row_key r \<and> TT_SEC s \<noteq> None
            \<and> TRK_MPH r = MPH s \<and> TRK_TT_SEC r = TT_SEC s"
    and "FLAG r = 1 \<Longrightarrow> row_key r \<notin> row_key ` set S \<or> (\<exists>s\<in>set S. row_key s = row_key r \<and> TT_SEC s = None)"
proof -
  from assms obtain p m where pm: "(p, m) \<in> set (merge_left row_key row_key P S)"
    and r: "r = impute_row (join_row (p, m))"
    unfolding merge_impute_def merge_flag_def by auto
  show "FLAG r = 0 \<or> FLAG r = 1" by (simp add: r)
  show "FLAG r = 1 \<Longrightarrow> TRK_MPH r = MPH r \<and> TRK_TT_SEC r = TT_SEC r"
    by (simp add: r split: if_splits)
  show "lottr_row.truncate r \<in> set P"
  proof (cases m)
    case None
    with pm show ?thesis by (auto simp: r dest: merge_left_none)
  next
    case (Some s)
    with pm show ?thesis by (auto simp: r dest: merge_left_snd)
  qed
  show "\<exists>s\<in>set S. row_key s = row_key r \<and> TT_SEC s \<noteq> None
            \<and> TRK_MPH r = MPH s \<and> TRK_TT_SEC r = TT_SEC s" if f: "FLAG r = 0"
  proof (cases m)
    case None
    with f show ?thesis by (simp add: r)
  next
    case (Some s)
    with pm have "s \<in> set S" "row_key s = row_key p" by (auto dest: merge_left_snd)
    with f Some show ?thesis by (auto simp: r split: if_splits)
  qed
  show "row_key r \<notin> row_key ` set S \<or> (\<exists>s\<in>set S. row_key s = row_key r \<and> TT_SEC s = None)"
    if f: "FLAG r = 1"
  proof (cases m)
    case None
    with pm have "row_key p \<notin> row_key ` set S" by (auto dest: merge_left_none)
    then show ?thesis by (simp add: r)
  next
    case (Some s)
    with pm have "s \<in> set S" "row_key s = row_key p" by (auto dest: merge_left_snd)
    with f Some show ?thesis by (auto simp: r split: if_splits)
  qed
qed

lemma truck_rows:
  assumes "s \<in> set (map (\<lambda>r. add_lottr_row (r, g r)) (add_hod_dow_tod_to_dataset (restrict_trk P trk)))"
  shows "(\<exists>t\<in>set trk. row_key t = row_key s \<and> MPH s = MPH t \<and> TT_SEC s = TT_SEC t)
      \<or> (row_key s \<notin> row_key ` set trk \<and> MPH s = None \<and> TT_SEC s = None)"
proof -
  from assms obtain ob where ob: "ob \<in> set (restrict_trk P trk)"
    and s: "s = add_lottr_row (add_hod_dow_tod_row ob, g (add_hod_dow_tod_row ob))"
    unfolding add_hod_dow_tod_to_dataset_def by auto
  have "MPH s = MPH ob" "TT_SEC s = TT_SEC ob" "row_key s = row_key ob"
    by (simp_all add: s) (simp_all add: add_hod_dow_tod_row_def Let_def)
  with restrict_trk_rows[OF ob] show ?thesis by simp
qed

section \<open>Properties of the merger and imputer\<close>

text \<open>
  Claim C6. The merger is a left join of \<open>P\<close> with \<open>S\<close> on (segment, timestamp). For
  frames keyed by (segment, timestamp), that is when no two rows of \<open>S\<close> share a key, every
  row of \<open>P\<close> appears exactly once in the output, in order; the same holds for the output
  of the script when no two rows of the all-vehicle feed and no two rows of the truck feed
  share a key. (Without that, a row of \<open>P\<close> appears once for each row of \<open>S\<close> with its key,
  and once when there is none.) Rows of \<open>S\<close> whose key is not in \<open>P\<close> are discarded. The
  flag is 1 when the joined truck travel time is missing (no row of \<open>S\<close> matches, or the
  matching row has none) and 0 otherwise, and takes no other value.
\<close>

theorem merge_left_join_flag:
  "map lottr_row.truncate (merge_impute P S)
     = concat (map (\<lambda>p. replicate (max 1 (length (filter (\<lambda>s. row_key s = row_key p) S))) p) P)
   \<and> (distinct (map row_key S) \<longrightarrow> map lottr_row.truncate (merge_impute P S) = P)
   \<and> merge_impute P (filter (\<lambda>s. row_key s \<in> row_key ` set P) S) = merge_impute P S
   \<and> map FLAG (merge_impute P S)
       = map (\<lambda>pm. if (case snd pm of None \<Rightarrow> True | Some s \<Rightarrow> TT_SEC s = None) then 1 else 0)
           (merge_left row_key row_key P S)
   \<and> set (map FLAG (merge_impute P S)) \<subseteq> {0, 1}
   \<and> (distinct (map row_key ohint) \<and> distinct (map row_key ohintrk) \<longrightarrow>
        (\<exists>data_int out. add_lottr_to_dataset tie (add_hod_dow_tod_to_dataset ohint) 50 80 = Inr data_int
            \<and> interstate tie ohint ohintrk = Inr out
            \<and> map lottr_row.truncate out = data_int))"
proof -
  have fl: "map FLAG (merge_impute P S)
       = map (\<lambda>pm. if (case snd pm of None \<Rightarrow> True | Some s \<Rightarrow> TT_SEC s = None) then 1 else 0)
           (merge_left row_key row_key P S)"
    by (simp add: merge_impute_def merge_flag_def comp_def flag_merged)
  have fs: "set (map FLAG (merge_impute P S)) \<subseteq> {0, 1}"
    unfolding fl by auto
  have pipe: "\<exists>data_int out. add_lottr_to_dataset tie (add_hod_dow_tod_to_dataset ohint) 50 80 = Inr data_int
            \<and> interstate tie ohint ohintrk = Inr out
            \<and> map lottr_row.truncate out = data_int"
    if d: "distinct (map row_key ohint) \<and> distinct (map row_key ohintrk)"
  proof -
    from interstate_shape[where tie = tie and ohint = ohint and ohintrk = ohintrk] obtain f g where
      P: "add_lottr_to_dataset tie (add_hod_dow_tod_to_dataset ohint) 50 80
           = Inr (map (\<lambda>r. add_lottr_row (r, f r)) (add_hod_dow_tod_to_dataset ohint))"
      and out: "interstate tie ohint ohintrk
           = Inr (merge_impute (map (\<lambda>r. add_lottr_row (r, f r)) (add_hod_dow_tod_to_dataset ohint))
                (map (\<lambda>r. add_lottr_row (r, g r)) (add_hod_dow_tod_to_dataset
                  (restrict_trk (map (\<lambda>r. add_lottr_row (r, f r)) (add_hod_dow_tod_to_dataset ohint)) ohintrk))))"
      unfolding Let_def by blast
    let ?P = "map (\<lambda>r. add_lottr_row (r, f r)) (add_hod_dow_tod_to_dataset ohint)"
    let ?S = "map (\<lambda>r. add_lottr_row (r, g r)) (add_hod_dow_tod_to_dataset (restrict_trk ?P ohintrk))"
    have "map row_key ?S = map row_key (restrict_trk ?P ohintrk)"
      by (rule keys_add_lottr_hod)
    also have "\<dots> = map row_key ?P"
      using d by (intro restrict_trk_distinct) simp
    also have "\<dots> = map row_key ohint"
      by (rule keys_add_lottr_hod)
    finally have "distinct (map row_key ?S)" using d by simp
    then have "map lottr_row.truncate (merge_impute ?P ?S) = ?P"
      by (rule merge_impute_distinct)
    with P out show ?thesis by blast
  qed
  from merge_impute_truncate[of P S] merge_impute_distinct[of S P] merge_impute_filter[of P S]
    fl fs pipe
  show ?thesis by blast
qed

theorem merge_left_join_flag_witness:
  "map lottr_row.truncate (merge_impute ex_P ex_S) = ex_P
   \<and> map FLAG (merge_impute ex_P ex_S) = [0]
   \<and> map FLAG (merge_impute ex_P []) = [1]
   \<and> (\<exists>data_int out. add_lottr_to_dataset (parity_tie 1) (add_hod_dow_tod_to_dataset ex_int) 50 80 = Inr data_int
          \<and> interstate (parity_tie 1) ex_int ex_trk = Inr out
          \<and> map lottr_row.truncate out = data_int \<and> length out = 1 \<and> map FLAG out = [0])"
proof -
  have d: "distinct (map row_key ex_S)" "distinct (map row_key ex_int) \<and> distinct (map row_key ex_trk)"
    by (simp_all add: ex_S_def ex_int_def ex_trk_def row_key_def)
  note t = merge_left_join_flag[of ex_P ex_S ex_int ex_trk "parity_tie 1"]
  from t d have a: "map lottr_row.truncate (merge_impute ex_P ex_S) = ex_P" by blast
  from t d obtain data_int out where
    o: "add_lottr_to_dataset (parity_tie 1) (add_hod_dow_tod_to_dataset ex_int) 50 80 = Inr data_int"
      "interstate (parity_tie 1) ex_int ex_trk = Inr out" "map lottr_row.truncate out = data_int"
    by blast
  have ev: "interstate (parity_tie 1) ex_int ex_trk =
   Inr [\<lparr>tmc_code = ''X'', DATETIME = 1672651800, MPH = Some 55, TT_SEC = Some 120,
            HOD = 9, DOW = 2, TOD = ''AM'', TTQ1P = Some 120, TTQ2P = Some 120, LOTTR = Fin 1,
            TRK_MPH = Some 50, TRK_TT_SEC = Some 130, TRK_TTQ1P = Some 130, TRK_TTQ2P = Some 130,
            TRK_LOTTR = Fin 1, FLAG = 0\<rparr>]"
    by (simp add: eval_interstate ex_int_def ex_trk_def)
  from o(2) have "length out = 1 \<and> map FLAG out = [0]"
    unfolding ev by auto
  moreover have "map FLAG (merge_impute ex_P ex_S) = [0]" "map FLAG (merge_impute ex_P []) = [1]"
    by (simp_all add: eval_interstate ex_P_def ex_S_def)
  ultimately show ?thesis using a o
    by (intro conjI exI[of _ data_int] exI[of _ out]) simp_all
qed

text \<open>
  Claim C7. In the merged frame every row with flag 1 has the truck speed and travel time
  equal to the all-vehicle speed and travel time of the same row, and every row with flag
  0 keeps the speed and travel time of a truck row of its key, whose travel time is not
  missing. This holds for the merger on any two frames and for the output of the script
  with respect to the truck feed it read; a key that the truck feed does not have gives
  flag 1 and the all-vehicle values, as for an all-vehicle row with speed 55 and travel
  time 120.
\<close>

theorem imputation_values:
  "(\<forall>r\<in>set (merge_impute P S).
        lottr_row.truncate r \<in> set P
      \<and> (FLAG r = 1 \<longrightarrow> TRK_MPH r = MPH r \<and> TRK_TT_SEC r = TT_SEC r)
      \<and> (FLAG r = 0 \<longrightarrow> (\<exists>s\<in>set S. row_key s = row_key r \<and> TT_SEC s \<noteq> None
                           \<and> TRK_MPH r = MPH s \<and> TRK_TT_SEC r = TT_SEC s)))
   \<and> (\<exists>out. interstate tie ohint ohintrk = Inr out \<and>
        (\<forall>r\<in>set out.
            (FLAG r = 1 \<longrightarrow> TRK_MPH r = MPH r \<and> TRK_TT_SEC r = TT_SEC r)
          \<and> (FLAG r = 0 \<longrightarrow> (\<exists>t\<in>set ohintrk. row_key t = row_key r \<and> TT_SEC t \<noteq> None
                               \<and> TRK_MPH r = MPH t \<and> TRK_TT_SEC r = TT_SEC t))
          \<and> (row_key r \<notin> row_key ` set ohintrk \<longrightarrow>
                FLAG r = 1 \<and> TRK_MPH r = MPH r \<and> TRK_TT_SEC r = TT_SEC r)))"
proof -
  have gen: "\<forall>r\<in>set (merge_impute P S).
        lottr_row.truncate r \<in> set P
      \<and> (FLAG r = 1 \<longrightarrow> TRK_MPH r = MPH r \<and> TRK_TT_SEC r = TT_SEC r)
      \<and> (FLAG r = 0 \<longrightarrow> (\<exists>s\<in>set S. row_key s = row_key r \<and> TT_SEC s \<noteq> None
                           \<and> TRK_MPH r = MPH s \<and> TRK_TT_SEC r = TT_SEC s))"
    using merge_impute_rows(1,3,4) by blast
  from interstate_shape[where tie = tie and ohint = ohint and ohintrk = ohintrk] obtain f g where
    out: "interstate tie ohint ohintrk
           = Inr (merge_impute (map (\<lambda>r. add_lottr_row (r, f r)) (add_hod_dow_tod_to_dataset ohint))
                (map (\<lambda>r. add_lottr_row (r, g r)) (add_hod_dow_tod_to_dataset
                  (restrict_trk (map (\<lambda>r. add_lottr_row (r, f r)) (add_hod_dow_tod_to_dataset ohint)) ohintrk))))"
    unfolding Let_def by blast
  let ?P = "map (\<lambda>r. add_lottr_row (r, f r)) (add_hod_dow_tod_to_dataset ohint)"
  let ?S = "map (\<lambda>r. add_lottr_row (r, g r)) (add_hod_dow_tod_to_dataset (restrict_trk ?P ohintrk))"
  have row: "(FLAG r = 1 \<longrightarrow> TRK_MPH r = MPH r \<and> TRK_TT_SEC r = TT_SEC r)
          \<and> (FLAG r = 0 \<longrightarrow> (\<exists>t\<in>set ohintrk. row_key t = row_key r \<and> TT_SEC t \<noteq> None
                               \<and> TRK_MPH r = MPH t \<and> TRK_TT_SEC r = TT_SEC t))
          \<and> (row_key r \<notin> row_key ` set ohintrk \<longrightarrow>
                FLAG r = 1 \<and> TRK_MPH r = MPH r \<and> TRK_TT_SEC r = TT_SEC r)"
    if r: "r \<in> set (merge_impute ?P ?S)" for r
  proof -
    note m = merge_impute_rows[OF r]
    have z: "\<exists>t\<in>set ohintrk. row_key t = row_key r \<and> TT_SEC t \<noteq> None
                               \<and> TRK_MPH r = MPH t \<and> TRK_TT_SEC r = TT_SEC t" if "FLAG r = 0"
    proof -
      from m(4)[OF that] obtain s where s: "s \<in> set ?S" "row_key s = row_key r" "TT_SEC s \<noteq> None"
        "TRK_MPH r = MPH s" "TRK_TT_SEC r = TT_SEC s" by blast
      from truck_rows[OF s(1)] s(3) obtain t where "t \<in> set ohintrk" "row_key t = row_key s"
        "MPH s = MPH t" "TT_SEC s = TT_SEC t" by auto
      with s show ?thesis by auto
    qed
    have "FLAG r = 1" if "row_key r \<notin> row_key ` set ohintrk"
    proof (rule ccontr)
      assume "FLAG r \<noteq> 1"
      with m(2) have "FLAG r = 0" by simp
      from z[OF this] that show False by force
    qed
    with m(3) z show ?thesis by blast
  qed
  from gen out row show ?thesis by blast
qed

theorem imputation_values_witness:
  "interstate (parity_tie 1) ex_int [] =
     Inr [\<lparr>tmc_code = ''X'', DATETIME = 1672651800, MPH = Some 55, TT_SEC = Some 120,
            HOD = 9, DOW = 2, TOD = ''AM'', TTQ1P = Some 120, TTQ2P = Some 120, LOTTR = Fin 1,
            TRK_MPH = Some 55, TRK_TT_SEC = Some 120, TRK_TTQ1P = None, TRK_TTQ2P = None,
            TRK_LOTTR = NaN, FLAG = 1\<rparr>]
   \<and> (\<exists>out. interstate (parity_tie 1) ex_int [] = Inr out \<and>
        (\<forall>r\<in>set out. FLAG r = 1 \<and> TRK_MPH r = MPH r \<and> TRK_TT_SEC r = TT_SEC r
            \<and> MPH r = Some 55 \<and> TT_SEC r = Some 120))
   \<and> (\<exists>out. interstate (parity_tie 1) ex_int ex_trk = Inr out \<and> map FLAG out = [0] \<and>
        (\<forall>r\<in>set out. \<exists>t\<in>set ex_trk. row_key t = row_key r \<and> TT_SEC t \<noteq> None
                               \<and> TRK_MPH r = MPH t \<and> TRK_TT_SEC r = TT_SEC t))"
proof -
  have ev: "interstate (parity_tie 1) ex_int [] =
     Inr [\<lparr>tmc_code = ''X'', DATETIME = 1672651800, MPH = Some 55, TT_SEC = Some 120,
            HOD = 9, DOW = 2, TOD = ''AM'', TTQ1P = Some 120, TTQ2P = Some 120, LOTTR = Fin 1,
            TRK_MPH = Some 55, TRK_TT_SEC = Some 120, TRK_TTQ1P = None, TRK_TTQ2P = None,
            TRK_LOTTR = NaN, FLAG = 1\<rparr>]"
    by (simp add: eval_interstate ex_int_def)
  have ev': "interstate (parity_tie 1) ex_int ex_trk =
   Inr [\<lparr>tmc_code = ''X'', DATETIME = 1672651800, MPH = Some 55, TT_SEC = Some 120,
            HOD = 9, DOW = 2, TOD = ''AM'', TTQ1P = Some 120, TTQ2P = Some 120, LOTTR = Fin 1,
            TRK_MPH = Some 50, TRK_TT_SEC = Some 130, TRK_TTQ1P = Some 130, TRK_TTQ2P = Some 130,
            TRK_LOTTR = Fin 1, FLAG = 0\<rparr>]"
    by (simp add: eval_interstate ex_int_def ex_trk_def)
  from imputation_values[of "[]" "[]" "parity_tie 1" ex_int "[]"] obtain out where
    o: "interstate (parity_tie 1) ex_int [] = Inr out"
      "\<forall>r\<in>set out. row_key r \<notin> row_key ` set ([] :: obs list) \<longrightarrow>
                FLAG r = 1 \<and> TRK_MPH r = MPH r \<and> TRK_TT_SEC r = TT_SEC r"
    by blast
  from o(1) have v: "\<forall>r\<in>set out. MPH r = Some 55 \<and> TT_SEC r = Some 120"
    unfolding ev by auto
  from imputation_values[of "[]" "[]" "parity_tie 1" ex_int ex_trk] obtain out' where
    o': "interstate (parity_tie 1) ex_int ex_trk = Inr out'"
      "\<forall>r\<in>set out'. FLAG r = 0 \<longrightarrow> (\<exists>t\<in>set ex_trk. row_key t = row_key r \<and> TT_SEC t \<noteq> None
                               \<and> TRK_MPH r = MPH t \<and> TRK_TT_SEC r = TT_SEC t)"
    by blast
  from o'(1) have f: "map FLAG out' = [0]" "\<forall>r\<in>set out'. FLAG r = 0"
    unfolding ev' by auto
  have a: "\<exists>out. interstate (parity_tie 1) ex_int [] = Inr out \<and>
        (\<forall>r\<in>set out. FLAG r = 1 \<and> TRK_MPH r = MPH r \<and> TRK_TT_SEC r = TT_SEC r
            \<and> MPH r = Some 55 \<and> TT_SEC r = Some 120)"
    using o v by (intro exI[of _ out]) simp
  have b: "\<exists>out. interstate (parity_tie 1) ex_int ex_trk = Inr out \<and> map FLAG out = [0] \<and>
        (\<forall>r\<in>set out. \<exists>t\<in>set ex_trk. row_key t = row_key r \<and> TT_SEC t \<noteq> None
                               \<and> TRK_MPH r = MPH t \<and> TRK_TT_SEC r = TT_SEC t)"
    using o' f by (intro exI[of _ out']) simp
  from ev a b show ?thesis by (intro conjI)
qed

lemma truck_reliability_filter:
  "truck_reliability tie data_int (filter (\<lambda>t. row_key t \<in> row_key ` set data_int) trk)
     = truck_reliability tie data_int trk"
  by (simp only: truck_reliability_def restrict_trk_filter)

lemma interstate_filter:
  "interstate tie ohint (filter (\<lambda>t. row_key t \<in> row_key ` set ohint) ohintrk)
     = interstate tie ohint ohintrk"
proof -
  obtain f where f: "add_lottr_to_dataset tie (add_hod_dow_tod_to_dataset ohint) 50 80
      = Inr (map (\<lambda>r. add_lottr_row (r, f r)) (add_hod_dow_tod_to_dataset ohint))"
    using add_lottr_to_dataset_shape[of 50 80 tie "add_hod_dow_tod_to_dataset ohint"] by auto
  let ?P = "map (\<lambda>r. add_lottr_row (r, f r)) (add_hod_dow_tod_to_dataset ohint)"
  have "set (map row_key ?P) = set (map row_key ohint)"
    by (simp only: keys_add_lottr_hod)
  then have k: "row_key ` set ?P = row_key ` set ohint"
    by (simp only: set_map)
  have "truck_reliability tie ?P (filter (\<lambda>t. row_key t \<in> row_key ` set ohint) ohintrk)
      = truck_reliability tie ?P ohintrk"
    using truck_reliability_filter[of tie ?P ohintrk] unfolding k .
  then show ?thesis
    by (simp add: interstate_def f)
qed

text \<open>
  Claim C9. Before the time bucketing and the percentiles, the truck frame is left-joined
  onto the keys of the all-vehicle frame. Truck rows whose key the all-vehicle frame does
  not have are gone after that step: removing them from the truck feed beforehand changes
  neither the restricted frame, nor the truck percentiles and LOTTR, nor the output of the
  script. The restricted frame has exactly the keys of the all-vehicle frame, and each of
  its rows carries the measurements of a truck row of its key, or missing measurements
  when the truck feed has no row of that key.
\<close>

theorem truck_feed_restricted_first:
  "restrict_trk data_int (filter (\<lambda>t. row_key t \<in> row_key ` set data_int) trk)
      = restrict_trk data_int trk
   \<and> truck_reliability tie data_int (filter (\<lambda>t. row_key t \<in> row_key ` set data_int) trk)
      = truck_reliability tie data_int trk
   \<and> interstate tie ohint (filter (\<lambda>t. row_key t \<in> row_key ` set ohint) ohintrk)
      = interstate tie ohint ohintrk
   \<and> row_key ` set (restrict_trk data_int trk) = row_key ` set data_int
   \<and> (\<forall>s\<in>set (restrict_trk data_int trk).
        (\<exists>t\<in>set trk. row_key t = row_key s \<and> MPH s = MPH t \<and> TT_SEC s = TT_SEC t)
        \<or> (row_key s \<notin> row_key ` set trk \<and> MPH s = None \<and> TT_SEC s = None))
   \<and> truck_reliability tie data_int trk
      = add_lottr_to_dataset tie (add_hod_dow_tod_to_dataset (restrict_trk data_int trk)) 50 95
   \<and> (\<exists>S. truck_reliability tie data_int trk = Inr S
          \<and> map obs.truncate S = restrict_trk data_int trk)"
proof -
  have rows: "\<forall>s\<in>set (restrict_trk data_int trk).
        (\<exists>t\<in>set trk. row_key t = row_key s \<and> MPH s = MPH t \<and> TT_SEC s = TT_SEC t)
        \<or> (row_key s \<notin> row_key ` set trk \<and> MPH s = None \<and> TT_SEC s = None)"
    using restrict_trk_rows by blast
  obtain g where g: "truck_reliability tie data_int trk
     = Inr (map (\<lambda>r. add_lottr_row (r, g r)) (add_hod_dow_tod_to_dataset (restrict_trk data_int trk)))"
    using truck_reliability_shape[of tie data_int trk] by auto
  have "obs.truncate (add_lottr_row (add_hod_dow_tod_row ob, x)) = ob" for ob x
    by (simp add: obs.truncate_def add_lottr_row_def add_hod_dow_tod_row_def Let_def)
  then have "map obs.truncate (map (\<lambda>r. add_lottr_row (r, g r))
        (add_hod_dow_tod_to_dataset (restrict_trk data_int trk))) = restrict_trk data_int trk"
    by (simp add: add_hod_dow_tod_to_dataset_def comp_def)
  with g have ex: "\<exists>S. truck_reliability tie data_int trk = Inr S
          \<and> map obs.truncate S = restrict_trk data_int trk"
    by blast
  have df: "truck_reliability tie data_int trk
      = add_lottr_to_dataset tie (add_hod_dow_tod_to_dataset (restrict_trk data_int trk)) 50 95"
    by (simp only: truck_reliability_def)
  from restrict_trk_filter[of data_int trk] truck_reliability_filter[of tie data_int trk]
    interstate_filter[of tie ohint ohintrk] restrict_trk_keys[of data_int trk] rows df ex
  show ?thesis
    by (intro conjI)
qed

theorem truck_feed_restricted_first_witness:
  "interstate (parity_tie 1) ex_int [\<lparr>tmc_code = ''X'', DATETIME = 1672651800, MPH = Some 50, TT_SEC = Some 130\<rparr>]
      = interstate (parity_tie 1) ex_int ex_trk
   \<and> restrict_trk ex_P ex_trk
      = [\<lparr>tmc_code = ''X'', DATETIME = 1672651800, MPH = Some 50, TT_SEC = Some 130\<rparr>]
   \<and> restrict_trk ex_P []
      = [\<lparr>tmc_code = ''X'', DATETIME = 1672651800, MPH = None, TT_SEC = None\<rparr>]
   \<and> list_all (\<lambda>s. \<exists>t\<in>set ex_trk. row_key t = row_key s \<and> MPH s = MPH t \<and> TT_SEC s = TT_SEC t)
        (restrict_trk ex_P ex_trk)
   \<and> list_all (\<lambda>s. MPH s = None \<and> TT_SEC s = None) (restrict_trk ex_P [])"
proof -
  have fl: "filter (\<lambda>t. row_key t \<in> row_key ` set ex_int) ex_trk
      = [\<lparr>tmc_code = ''X'', DATETIME = 1672651800, MPH = Some 50, TT_SEC = Some 130\<rparr>]"
    by (simp add: ex_int_def ex_trk_def row_key_def)
  note t = truck_feed_restricted_first[of ex_P ex_trk "parity_tie 1" ex_int ex_trk]
  note t' = truck_feed_restricted_first[of ex_P "[]" "parity_tie 1" ex_int ex_trk]
  from t have a: "interstate (parity_tie 1) ex_int [\<lparr>tmc_code = ''X'', DATETIME = 1672651800, MPH = Some 50, TT_SEC = Some 130\<rparr>]
      = interstate (parity_tie 1) ex_int ex_trk"
    unfolding fl by (rule conjunct2[THEN conjunct2, THEN conjunct1])
  have b: "restrict_trk ex_P ex_trk
      = [\<lparr>tmc_code = ''X'', DATETIME = 1672651800, MPH = Some 50, TT_SEC = Some 130\<rparr>]"
    "restrict_trk ex_P []
      = [\<lparr>tmc_code = ''X'', DATETIME = 1672651800, MPH = None, TT_SEC = None\<rparr>]"
    by (simp_all add: restrict_trk_def merge_left_def row_key_def ex_P_def ex_trk_def)
  from t have c: "\<forall>s\<in>set (restrict_trk ex_P ex_trk).
        (\<exists>t\<in>set ex_trk. row_key t = row_key s \<and> MPH s = MPH t \<and> TT_SEC s = TT_SEC t)
        \<or> (row_key s \<notin> row_key ` set ex_trk \<and> MPH s = None \<and> TT_SEC s = None)"
    by (rule conjunct2[THEN conjunct2, THEN conjunct2, THEN conjunct2, THEN conjunct1])
  have c': "\<forall>s\<in>set (restrict_trk ex_P ex_trk).
        \<exists>t\<in>set ex_trk. row_key t = row_key s \<and> MPH s = MPH t \<and> TT_SEC s = TT_SEC t"
  proof
    fix s assume s: "s \<in> set (restrict_trk ex_P ex_trk)"
    then have ne: "MPH s \<noteq> None" unfolding b by simp
    from c s have "(\<exists>t\<in>set ex_trk. row_key t = row_key s \<and> MPH s = MPH t \<and> TT_SEC s = TT_SEC t)
        \<or> (row_key s \<notin> row_key ` set ex_trk \<and> MPH s = None \<and> TT_SEC s = None)"
      by (rule bspec)
    with ne show "\<exists>t\<in>set ex_trk. row_key t = row_key s \<and> MPH s = MPH t \<and> TT_SEC s = TT_SEC t"
      by (elim disjE conjE) simp_all
  qed
  from t' have d: "\<forall>s\<in>set (restrict_trk ex_P []).
        (\<exists>t\<in>set ([] :: obs list). row_key t = row_key s \<and> MPH s = MPH t \<and> TT_SEC s = TT_SEC t)
        \<or> (row_key s \<notin> row_key ` set ([] :: obs list) \<and> MPH s = None \<and> TT_SEC s = None)"
    by (rule conjunct2[THEN conjunct2, THEN conjunct2, THEN conjunct2, THEN conjunct1])
  then have d': "\<forall>s\<in>set (restrict_trk ex_P []). MPH s = None \<and> TT_SEC s = None"
    by simp
  from c' have c'': "list_all (\<lambda>s. \<exists>t\<in>set ex_trk. row_key t = row_key s \<and> MPH s = MPH t \<and> TT_SEC s = TT_SEC t)
        (restrict_trk ex_P ex_trk)"
    by (simp only: list_all_iff)
  from d' have d'': "list_all (\<lambda>s. MPH s = None \<and> TT_SEC s = None) (restrict_trk ex_P [])"
    by (simp only: list_all_iff)
  from a b c'' d'' show ?thesis by (intro conjI)
qed

text \<open>
  Claim C10. The imputation writes the truck speed and the truck travel time, and nothing
  else: the all-vehicle columns, the truck percentiles, the truck LOTTR and the flag of a
  row are the same after it, whatever the flag. A row with flag 0 is not changed at all; a
  row with flag 1 gets the all-vehicle speed and travel time in the two truck columns. So
  a row with flag 1 can have truck percentiles and a truck LOTTR that are missing next to
  a truck speed and travel time that were filled in: the script gives such a row for an
  all-vehicle observation with speed 55 and travel time 120 and an empty truck feed.
\<close>

theorem imputation_frame:
  "lottr_row.truncate (impute_row r) = lottr_row.truncate r
   \<and> TRK_TTQ1P (impute_row r) = TRK_TTQ1P r
   \<and> TRK_TTQ2P (impute_row r) = TRK_TTQ2P r
   \<and> TRK_LOTTR (impute_row r) = TRK_LOTTR r
   \<and> FLAG (impute_row r) = FLAG r
   \<and> impute_row r = r\<lparr>TRK_MPH := TRK_MPH (impute_row r), TRK_TT_SEC := TRK_TT_SEC (impute_row r)\<rparr>
   \<and> merge_impute P S = map impute_row (merge_flag P S)
   \<and> (\<forall>m\<in>set (merge_flag P S).
        (FLAG m = 0 \<longrightarrow> impute_row m = m)
        \<and> (FLAG m = 1 \<longrightarrow> impute_row m = m\<lparr>TRK_MPH := MPH m, TRK_TT_SEC := TT_SEC m\<rparr>))
   \<and> interstate tie ex_int [] =
       Inr [\<lparr>tmc_code = ''X'', DATETIME = 1672651800, MPH = Some 55, TT_SEC = Some 120,
            HOD = 9, DOW = 2, TOD = ''AM'', TTQ1P = Some 120, TTQ2P = Some 120, LOTTR = Fin 1,
            TRK_MPH = Some 55, TRK_TT_SEC = Some 120, TRK_TTQ1P = None, TRK_TTQ2P = None,
            TRK_LOTTR = NaN, FLAG = 1\<rparr>]"
proof -
  have a: "impute_row r = r\<lparr>TRK_MPH := TRK_MPH (impute_row r), TRK_TT_SEC := TRK_TT_SEC (impute_row r)\<rparr>"
    by (simp add: impute_row_def)
  have b: "\<forall>m\<in>set (merge_flag P S).
        (FLAG m = 0 \<longrightarrow> impute_row m = m)
        \<and> (FLAG m = 1 \<longrightarrow> impute_row m = m\<lparr>TRK_MPH := MPH m, TRK_TT_SEC := TT_SEC m\<rparr>)"
  proof
    fix m assume "m \<in> set (merge_flag P S)"
    then obtain p x where "m = join_row (p, x)" unfolding merge_flag_def by auto
    then show "(FLAG m = 0 \<longrightarrow> impute_row m = m)
        \<and> (FLAG m = 1 \<longrightarrow> impute_row m = m\<lparr>TRK_MPH := MPH m, TRK_TT_SEC := TT_SEC m\<rparr>)"
      by (simp add: impute_row_def split: if_splits)
  qed
  have c: "interstate tie ex_int [] =
       Inr [\<lparr>tmc_code = ''X'', DATETIME = 1672651800, MPH = Some 55, TT_SEC = Some 120,
            HOD = 9, DOW = 2, TOD = ''AM'', TTQ1P = Some 120, TTQ2P = Some 120, LOTTR = Fin 1,
            TRK_MPH = Some 55, TRK_TT_SEC = Some 120, TRK_TTQ1P = None, TRK_TTQ2P = None,
            TRK_LOTTR = NaN, FLAG = 1\<rparr>]"
    by (simp add: eval_interstate ex_int_def)
  have d: "lottr_row.truncate (impute_row r) = lottr_row.truncate r"
    "TRK_TTQ1P (impute_row r) = TRK_TTQ1P r" "TRK_TTQ2P (impute_row r) = TRK_TTQ2P r"
    "TRK_LOTTR (impute_row r) = TRK_LOTTR r" "FLAG (impute_row r) = FLAG r"
    "merge_impute P S = map impute_row (merge_flag P S)"
    by (simp_all add: merge_impute_def)
  from a b c d show ?thesis by (intro conjI)
qed

theorem imputation_frame_witness:
  "map FLAG (merge_flag ex_P []) = [1]
   \<and> map TRK_TT_SEC (merge_flag ex_P []) = [None]
   \<and> map TRK_TT_SEC (merge_impute ex_P []) = [Some 120]
   \<and> map TRK_MPH (merge_impute ex_P []) = [Some 55]
   \<and> map TRK_TTQ1P (merge_impute ex_P []) = [None]
   \<and> map TRK_LOTTR (merge_impute ex_P []) = [NaN]
   \<and> map lottr_row.truncate (merge_impute ex_P []) = ex_P
   \<and> map FLAG (merge_flag ex_P ex_S) = [0]
   \<and> merge_impute ex_P ex_S = merge_flag ex_P ex_S
   \<and> list_all (\<lambda>m. impute_row m = m\<lparr>TRK_MPH := MPH m, TRK_TT_SEC := TT_SEC m\<rparr>)
        (merge_flag ex_P [])"
proof -
  have f: "map FLAG (merge_flag ex_P []) = [1]" "map FLAG (merge_flag ex_P ex_S) = [0]"
    "map TRK_TT_SEC (merge_flag ex_P []) = [None]"
    by (simp_all add: merge_flag_def merge_left_def row_key_def ex_P_def ex_S_def)
  note t = imputation_frame[of _ ex_P "[]" "parity_tie 1"]
  note t' = imputation_frame[of _ ex_P ex_S "parity_tie 1"]
  from t have i: "\<forall>m\<in>set (merge_flag ex_P []).
        (FLAG m = 0 \<longrightarrow> impute_row m = m)
        \<and> (FLAG m = 1 \<longrightarrow> impute_row m = m\<lparr>TRK_MPH := MPH m, TRK_TT_SEC := TT_SEC m\<rparr>)"
    by (rule conjunct2[THEN conjunct2, THEN conjunct2, THEN conjunct2, THEN conjunct2,
          THEN conjunct2, THEN conjunct2, THEN conjunct1])
  from t' have i': "\<forall>m\<in>set (merge_flag ex_P ex_S).
        (FLAG m = 0 \<longrightarrow> impute_row m = m)
        \<and> (FLAG m = 1 \<longrightarrow> impute_row m = m\<lparr>TRK_MPH := MPH m, TRK_TT_SEC := TT_SEC m\<rparr>)"
    by (rule conjunct2[THEN conjunct2, THEN conjunct2, THEN conjunct2, THEN conjunct2,
          THEN conjunct2, THEN conjunct2, THEN conjunct1])
  have one: "\<forall>m\<in>set (merge_flag ex_P []). FLAG m = 1"
    using f(1) by (auto simp: merge_flag_def merge_left_def)
  have zero: "\<forall>m\<in>set (merge_flag ex_P ex_S). FLAG m = 0"
    using f(2) by (auto simp: merge_flag_def merge_left_def row_key_def ex_P_def ex_S_def)
  from i one have g: "\<forall>m\<in>set (merge_flag ex_P []).
         impute_row m = m\<lparr>TRK_MPH := MPH m, TRK_TT_SEC := TT_SEC m\<rparr>"
    by blast
  from i' zero have "map impute_row (merge_flag ex_P ex_S) = merge_flag ex_P ex_S"
    by (simp add: map_idI)
  then have h: "merge_impute ex_P ex_S = merge_flag ex_P ex_S"
    by (simp add: merge_impute_def)
  have e: "map TRK_TT_SEC (merge_impute ex_P []) = [Some 120]"
    "map TRK_MPH (merge_impute ex_P []) = [Some 55]"
    "map TRK_TTQ1P (merge_impute ex_P []) = [None]"
    "map TRK_LOTTR (merge_impute ex_P []) = [NaN]"
    "map lottr_row.truncate (merge_impute ex_P []) = ex_P"
    by (simp_all add: merge_impute_def merge_flag_def merge_left_def row_key_def ex_P_def ex_S_def)
  from g have g': "list_all (\<lambda>m. impute_row m = m\<lparr>TRK_MPH := MPH m, TRK_TT_SEC := TT_SEC m\<rparr>)
        (merge_flag ex_P [])"
    by (simp only: list_all_iff)
  from f e h g' show ?thesis by (intro conjI)
qed

end
